theory Spec2Isabelle
  imports Complex_Main "HOL-Library.AList"
begin

section \<open>JavaScript values used by the model\<close>

text \<open>
  A JavaScript Number is modelled as an exact rational; NaN and the infinities are not
  represented. Sums and differences are exact, as they are in doubles for integers
  below \<open>2^53\<close>. \<open>undefined\<close> and \<open>null\<close> are \<open>None\<close> of an option type.

  \<open>Math.random()\<close> returns a double in \<open>[0, 1)\<close>, and the source uses it in products
  \<open>Math.random() * k\<close> only. The product is rounded to a double, so that it need not be
  the exact product of the two numbers. A draw is therefore modelled by the product
  itself, as a function of the factor \<open>k\<close>: for a draw \<open>r\<close>, the number \<open>r k\<close> is the
  double \<open>Math.random() * k\<close>. Every call site of \<open>Math.random()\<close> takes its draw from a
  field of the record \<open>rnd\<close>, so that the synthesis is a function of its arguments and
  of the draws.

  \<open>unit_draw\<close> is what rounding to the nearest double keeps of \<open>0 \<le> Math.random() < 1\<close>:
  the product lies between \<open>0\<close> and the factor, and strictly below a factor that is at
  least \<open>1\<close>.
\<close>

type_synonym number = rat

type_synonym draw = "number \<Rightarrow> number"

definition unit_draw :: "draw \<Rightarrow> bool" where
  "unit_draw r \<longleftrightarrow>
     (\<forall>k. (0 \<le> k \<longrightarrow> 0 \<le> r k \<and> r k \<le> k) \<and> (1 \<le> k \<longrightarrow> r k < k) \<and>
          (k \<le> 0 \<longrightarrow> k \<le> r k \<and> r k \<le> 0))"

text \<open>\<open>x || d\<close> on an optional number: \<open>undefined\<close> and \<open>0\<close> are falsy.\<close>

definition orNumber :: "number option \<Rightarrow> number \<Rightarrow> number" where
  "orNumber x d = (case x of None \<Rightarrow> d | Some v \<Rightarrow> if v = 0 then d else v)"

text \<open>\<open>Math.floor(Math.random() * n)\<close>, used as an index into a list of length \<open>n\<close>.\<close>

definition randomIndex :: "draw \<Rightarrow> nat \<Rightarrow> nat" where
  "randomIndex r n = nat \<lfloor>r (of_nat n)\<rfloor>"

text \<open>\<open>Math.floor(Math.random() * (max - min + 1)) + min\<close>.\<close>

definition randomInRange :: "draw \<Rightarrow> number \<Rightarrow> number \<Rightarrow> number" where
  "randomInRange r lo hi = of_int \<lfloor>r (hi - lo + 1)\<rfloor> + lo"

text \<open>
  Errors are the \<open>Error\<close> objects of the source: \<open>Msg m\<close> is \<open>new Error(m)\<close> with a
  literal message, \<open>Wrapped p e\<close> is \<open>new Error(p + e.message)\<close> as built by the
  \<open>catch\<close> blocks, \<open>TypeError\<close> is the engine's error for a property access on
  \<open>undefined\<close>, and \<open>FsError\<close>, \<open>JsonSyntaxError\<close>, \<open>StoreError\<close> are raised by the
  file system, by \<open>JSON.parse\<close> and by the Lead collection.
\<close>

datatype error =
    Msg string
  | Wrapped string error
  | TypeError
  | FsError
  | JsonSyntaxError
  | StoreError

section \<open>Fingerprint synthesis (models/Fingerprint.js)\<close>

subsection \<open>The constraint specification\<close>

record num_range =
  range_min :: "number option"
  range_max :: "number option"

record memory_spec =
  memory_min :: "number option"
  memory_max :: "number option"
  memory_preferred :: "number list option"

record cpu_spec =
  cpu_cores :: "num_range option"

record hardware_spec =
  hw_memory :: "memory_spec option"
  hw_cpu :: "cpu_spec option"

record resolution_spec =
  res_width :: "num_range option"
  res_height :: "num_range option"

record display_spec =
  disp_resolution :: "resolution_spec option"
  disp_pixelRatio :: "num_range option"
  disp_colorDepth :: "number list option"

text \<open>
  \<open>bs_versions\<close> maps a browser type to the \<open>max\<close> of its version range, when the range
  is present (\<open>Some None\<close>: a range without \<open>max\<close>).
\<close>

record browser_spec =
  bs_types :: "string list option"
  bs_versions :: "string \<Rightarrow> string option option"

record characteristics_spec =
  touchSupport :: "string option"

record device_specs =
  ds_hardware :: "hardware_spec option"
  ds_display :: "display_spec option"
  ds_browser :: "browser_spec option"
  ds_characteristics :: "characteristics_spec option"

subsection \<open>The draws of one synthesis\<close>

text \<open>
  The pixel ratio is the one field computed in floating point throughout,
  \<open>Math.random() * (ratioMax - ratioMin) + ratioMin\<close>; its draw is the value of this
  expression as a function of \<open>ratioMin\<close> and \<open>ratioMax\<close>.
\<close>

record rnd =
  draw_memory :: draw
  draw_cores :: draw
  draw_width :: draw
  draw_height :: draw
  draw_pixelRatio :: "number \<Rightarrow> number \<Rightarrow> number"
  draw_colorDepth :: draw
  draw_browser :: draw
  var_width :: draw
  var_height :: draw
  var_cores :: draw
  var_memory :: draw

definition unit_draws :: "rnd \<Rightarrow> bool" where
  "unit_draws d \<longleftrightarrow>
     unit_draw (draw_memory d) \<and> unit_draw (draw_cores d) \<and> unit_draw (draw_width d) \<and>
     unit_draw (draw_height d) \<and> unit_draw (draw_colorDepth d) \<and>
     unit_draw (draw_browser d) \<and> unit_draw (var_width d) \<and> unit_draw (var_height d) \<and>
     unit_draw (var_cores d) \<and> unit_draw (var_memory d)"

subsection \<open>Device configurations\<close>

text \<open>
  The user-agent string, the device id and the canvas and audio tokens are strings that
  no numeric field, plugin list or error of the synthesis depends on; the model leaves
  them out, together with the constant \<open>webgl\<close> and \<open>additional\<close> blocks, the
  \<open>lastUsedAt\<close> date and the \<open>operatingSystem\<close> part of the specification, which only
  rewrites the user-agent string.
\<close>

record screen_cfg =
  width :: number
  height :: number
  availWidth :: number
  availHeight :: number
  colorDepth :: "number option"
  pixelDepth :: "number option"
  devicePixelRatio :: number

record navigator_cfg =
  platform :: string
  hardwareConcurrency :: number
  deviceMemory :: number
  maxTouchPoints :: number

record mobile_cfg =
  isMobile :: bool
  isTablet :: bool

record browser_cfg =
  browser_name :: string
  browser_version :: string

record config =
  cfg_screen :: screen_cfg
  cfg_navigator :: navigator_cfg
  cfg_mobile :: mobile_cfg
  cfg_browser :: browser_cfg

definition windowsConfig :: config where
  "windowsConfig =
     \<lparr>cfg_screen = \<lparr>width = 1920, height = 1080, availWidth = 1920, availHeight = 1040,
                    colorDepth = None, pixelDepth = None, devicePixelRatio = 1\<rparr>,
      cfg_navigator = \<lparr>platform = ''Win32'', hardwareConcurrency = 8, deviceMemory = 8,
                       maxTouchPoints = 0\<rparr>,
      cfg_mobile = \<lparr>isMobile = False, isTablet = False\<rparr>,
      cfg_browser = \<lparr>browser_name = ''chrome'', browser_version = ''120.0.0.0''\<rparr>\<rparr>"

definition androidConfig :: config where
  "androidConfig =
     \<lparr>cfg_screen = \<lparr>width = 428, height = 926, availWidth = 428, availHeight = 926,
                    colorDepth = None, pixelDepth = None, devicePixelRatio = 3\<rparr>,
      cfg_navigator = \<lparr>platform = ''Linux armv8l'', hardwareConcurrency = 8,
                       deviceMemory = 8, maxTouchPoints = 10\<rparr>,
      cfg_mobile = \<lparr>isMobile = True, isTablet = False\<rparr>,
      cfg_browser = \<lparr>browser_name = ''chrome'', browser_version = ''120.0.0.0''\<rparr>\<rparr>"

definition iosConfig :: config where
  "iosConfig =
     \<lparr>cfg_screen = \<lparr>width = 428, height = 926, availWidth = 428, availHeight = 926,
                    colorDepth = None, pixelDepth = None, devicePixelRatio = 3\<rparr>,
      cfg_navigator = \<lparr>platform = ''iPhone'', hardwareConcurrency = 6, deviceMemory = 6,
                       maxTouchPoints = 5\<rparr>,
      cfg_mobile = \<lparr>isMobile = True, isTablet = False\<rparr>,
      cfg_browser = \<lparr>browser_name = ''safari'', browser_version = ''17.0''\<rparr>\<rparr>"

definition macConfig :: config where
  "macConfig =
     \<lparr>cfg_screen = \<lparr>width = 2560, height = 1440, availWidth = 2560, availHeight = 1400,
                    colorDepth = None, pixelDepth = None, devicePixelRatio = 2\<rparr>,
      cfg_navigator = \<lparr>platform = ''MacIntel'', hardwareConcurrency = 8, deviceMemory = 16,
                       maxTouchPoints = 0\<rparr>,
      cfg_mobile = \<lparr>isMobile = False, isTablet = False\<rparr>,
      cfg_browser = \<lparr>browser_name = ''chrome'', browser_version = ''120.0.0.0''\<rparr>\<rparr>"

text \<open>The own properties of the object literal \<open>deviceConfigs\<close>.\<close>

definition deviceConfigs :: "string \<Rightarrow> config option" where
  "deviceConfigs deviceType =
     (if deviceType = ''windows'' then Some windowsConfig
      else if deviceType = ''android'' then Some androidConfig
      else if deviceType = ''ios'' then Some iosConfig
      else if deviceType = ''mac'' then Some macConfig
      else None)"

text \<open>
  \<open>deviceConfigs[deviceType]\<close> also finds the properties the literal inherits from
  \<open>Object.prototype\<close>. Each of them is truthy (a function, or the prototype object for
  \<open>__proto__\<close>), so that \<open>|| deviceConfigs.windows\<close> does not apply, and has no own
  enumerable property, so that \<open>{ ...config }\<close> is the empty object.
\<close>

definition objectPrototypeKeys :: "string list" where
  "objectPrototypeKeys =
     [''constructor'', ''__defineGetter__'', ''__defineSetter__'', ''hasOwnProperty'',
      ''__lookupGetter__'', ''__lookupSetter__'', ''isPrototypeOf'',
      ''propertyIsEnumerable'', ''toString'', ''valueOf'', ''__proto__'',
      ''toLocaleString'']"

definition validDeviceTypes :: "string list" where
  "validDeviceTypes = [''windows'', ''android'', ''ios'', ''mac'']"

subsection \<open>Applying the device specifications\<close>

definition applyMemory :: "memory_spec \<Rightarrow> rnd \<Rightarrow> navigator_cfg \<Rightarrow> navigator_cfg" where
  "applyMemory m d nav =
     (let memoryMin = orNumber (memory_min m) 4;
          memoryMax = orNumber (memory_max m) 16;
          preferredMemory = (case memory_preferred m of None \<Rightarrow> [] | Some p \<Rightarrow> p)
      in if length preferredMemory > 0
         then nav\<lparr>deviceMemory :=
                preferredMemory ! randomIndex (draw_memory d) (length preferredMemory)\<rparr>
         else nav\<lparr>deviceMemory := randomInRange (draw_memory d) memoryMin memoryMax\<rparr>)"

definition applyCpu :: "cpu_spec option \<Rightarrow> rnd \<Rightarrow> navigator_cfg \<Rightarrow> navigator_cfg" where
  "applyCpu c d nav =
     (case c of
        None \<Rightarrow> nav
      | Some cpu \<Rightarrow>
          (case cpu_cores cpu of
             None \<Rightarrow> nav
           | Some cores \<Rightarrow>
               nav\<lparr>hardwareConcurrency :=
                 randomInRange (draw_cores d) (orNumber (range_min cores) 2)
                   (orNumber (range_max cores) 8)\<rparr>))"

definition applyHardware :: "hardware_spec option \<Rightarrow> rnd \<Rightarrow> navigator_cfg \<Rightarrow> navigator_cfg" where
  "applyHardware h d nav =
     (case h of
        None \<Rightarrow> nav
      | Some hardware \<Rightarrow>
          applyCpu (hw_cpu hardware) d
            (case hw_memory hardware of None \<Rightarrow> nav | Some m \<Rightarrow> applyMemory m d nav))"

definition applyResolution :: "resolution_spec \<Rightarrow> rnd \<Rightarrow> screen_cfg \<Rightarrow> screen_cfg" where
  "applyResolution res d scr =
     (let scr1 =
            (case res_width res of
               None \<Rightarrow> scr
             | Some w \<Rightarrow>
                 (let wd = randomInRange (draw_width d) (orNumber (range_min w) 1280)
                             (orNumber (range_max w) 1920)
                  in scr\<lparr>width := wd, availWidth := wd\<rparr>))
      in (case res_height res of
            None \<Rightarrow> scr1
          | Some h \<Rightarrow>
              (let ht = randomInRange (draw_height d) (orNumber (range_min h) 720)
                          (orNumber (range_max h) 1080)
               in scr1\<lparr>height := ht, availHeight := ht - 40\<rparr>)))"

definition applyDisplay :: "display_spec option \<Rightarrow> rnd \<Rightarrow> screen_cfg \<Rightarrow> screen_cfg" where
  "applyDisplay dsp d scr =
     (case dsp of
        None \<Rightarrow> scr
      | Some display \<Rightarrow>
          (let scr1 = (case disp_resolution display of
                         None \<Rightarrow> scr
                       | Some res \<Rightarrow> applyResolution res d scr);
               scr2 = (case disp_pixelRatio display of
                         None \<Rightarrow> scr1
                       | Some pr \<Rightarrow>
                           scr1\<lparr>devicePixelRatio :=
                             draw_pixelRatio d (orNumber (range_min pr) 1)
                               (orNumber (range_max pr) 2)\<rparr>)
           in (case disp_colorDepth display of
                 None \<Rightarrow> scr2
               | Some cds \<Rightarrow>
                   if length cds > 0
                   then (let cd = cds ! randomIndex (draw_colorDepth d) (length cds)
                         in scr2\<lparr>colorDepth := Some cd, pixelDepth := Some cd\<rparr>)
                   else scr2)))"

definition applyBrowser :: "browser_spec option \<Rightarrow> rnd \<Rightarrow> browser_cfg \<Rightarrow> browser_cfg" where
  "applyBrowser b d br =
     (case b of
        None \<Rightarrow> br
      | Some bspec \<Rightarrow>
          (case bs_types bspec of
             None \<Rightarrow> br
           | Some types \<Rightarrow>
               if length types > 0
               then (let browserType = types ! randomIndex (draw_browser d) (length types)
                     in \<lparr>browser_name = browserType,
                         browser_version =
                           (case bs_versions bspec browserType of
                              Some (Some m) \<Rightarrow> if m = [] then browser_version br else m
                            | _ \<Rightarrow> browser_version br)\<rparr>)
               else br))"

definition applyCharacteristics ::
  "characteristics_spec option \<Rightarrow> navigator_cfg \<Rightarrow> navigator_cfg" where
  "applyCharacteristics c nav =
     (case c of
        None \<Rightarrow> nav
      | Some chars \<Rightarrow>
          if touchSupport chars = Some ''required''
          then nav\<lparr>maxTouchPoints := max 1 (maxTouchPoints nav)\<rparr>
          else if touchSupport chars = Some ''disabled''
          then nav\<lparr>maxTouchPoints := 0\<rparr>
          else nav)"

text \<open>The block \<open>if (deviceSpecs) { ... }\<close>: the configuration as resolved from the specs.\<close>

definition applySpecs :: "device_specs option \<Rightarrow> rnd \<Rightarrow> config \<Rightarrow> config" where
  "applySpecs specs d c =
     (case specs of
        None \<Rightarrow> c
      | Some deviceSpecs \<Rightarrow>
          \<lparr>cfg_screen = applyDisplay (ds_display deviceSpecs) d (cfg_screen c),
           cfg_navigator =
             applyCharacteristics (ds_characteristics deviceSpecs)
               (applyHardware (ds_hardware deviceSpecs) d (cfg_navigator c)),
           cfg_mobile = cfg_mobile c,
           cfg_browser = applyBrowser (ds_browser deviceSpecs) d (cfg_browser c)\<rparr>)"

subsection \<open>Random variations\<close>

definition variations_screenWidth :: "number list" where
  "variations_screenWidth = [-2, -1, 0, 1, 2]"

definition variations_screenHeight :: "number list" where
  "variations_screenHeight = [-2, -1, 0, 1, 2]"

definition variations_hardwareConcurrency :: "string \<Rightarrow> number list" where
  "variations_hardwareConcurrency deviceType =
     (if deviceType = ''android'' \<or> deviceType = ''ios'' then [0, 1, -1]
      else [0, 1, -1, 2, -2])"

definition variations_deviceMemory :: "number list" where
  "variations_deviceMemory = [0, 1, -1]"

definition randomVariation :: "draw \<Rightarrow> number \<Rightarrow> number list \<Rightarrow> number" where
  "randomVariation r base variations =
     max 1 (base + variations ! randomIndex r (length variations))"

text \<open>The three guards of the variation block, as the source writes them.\<close>

definition resolutionGiven :: "device_specs option \<Rightarrow> bool" where
  "resolutionGiven specs =
     (case specs of
        None \<Rightarrow> False
      | Some s \<Rightarrow> (case ds_display s of
                     None \<Rightarrow> False
                   | Some dsp \<Rightarrow> disp_resolution dsp \<noteq> None))"

definition cpuGiven :: "device_specs option \<Rightarrow> bool" where
  "cpuGiven specs =
     (case specs of
        None \<Rightarrow> False
      | Some s \<Rightarrow> (case ds_hardware s of
                     None \<Rightarrow> False
                   | Some h \<Rightarrow> hw_cpu h \<noteq> None))"

definition memoryGiven :: "device_specs option \<Rightarrow> bool" where
  "memoryGiven specs =
     (case specs of
        None \<Rightarrow> False
      | Some s \<Rightarrow> (case ds_hardware s of
                     None \<Rightarrow> False
                   | Some h \<Rightarrow> hw_memory h \<noteq> None))"

definition varyScreen :: "device_specs option \<Rightarrow> rnd \<Rightarrow> screen_cfg \<Rightarrow> screen_cfg" where
  "varyScreen specs d scr =
     (if \<not> resolutionGiven specs
      then (let w = randomVariation (var_width d) (width scr) variations_screenWidth;
                h = randomVariation (var_height d) (height scr) variations_screenHeight
            in scr\<lparr>width := w, height := h, availWidth := w, availHeight := h - 40\<rparr>)
      else scr)"

definition varyNavigator ::
  "string \<Rightarrow> device_specs option \<Rightarrow> rnd \<Rightarrow> navigator_cfg \<Rightarrow> navigator_cfg" where
  "varyNavigator deviceType specs d nav =
     (let nav1 = (if \<not> cpuGiven specs
                  then nav\<lparr>hardwareConcurrency :=
                         randomVariation (var_cores d) (hardwareConcurrency nav)
                           (variations_hardwareConcurrency deviceType)\<rparr>
                  else nav)
      in if \<not> memoryGiven specs
         then nav1\<lparr>deviceMemory :=
                randomVariation (var_memory d) (deviceMemory nav1) variations_deviceMemory\<rparr>
         else nav1)"

definition applyVariations :: "string \<Rightarrow> device_specs option \<Rightarrow> rnd \<Rightarrow> config \<Rightarrow> config" where
  "applyVariations deviceType specs d c =
     c\<lparr>cfg_screen := varyScreen specs d (cfg_screen c),
       cfg_navigator := varyNavigator deviceType specs d (cfg_navigator c)\<rparr>"

subsection \<open>The fingerprint\<close>

record plugin =
  plugin_name :: string
  plugin_filename :: string
  plugin_description :: string
  plugin_version :: string

record fp_screen =
  fp_width :: number
  fp_height :: number
  fp_availWidth :: number
  fp_availHeight :: number
  fp_colorDepth :: number
  fp_pixelDepth :: number
  fp_devicePixelRatio :: number

record fp_navigator =
  fp_platform :: string
  fp_language :: string
  fp_languages :: "string list"
  fp_vendor :: string
  fp_product :: string
  fp_hardwareConcurrency :: number
  fp_deviceMemory :: number
  fp_maxTouchPoints :: number

record fingerprint =
  fp_deviceType :: string
  fp_browser :: browser_cfg
  fp_screenOf :: fp_screen
  fp_navigatorOf :: fp_navigator
  fp_timezone :: string
  fp_plugins :: "plugin list"
  fp_mobile :: mobile_cfg
  fp_createdBy :: string
  fp_leadId :: "string option"

definition pdfPlugin :: plugin where
  "pdfPlugin =
     \<lparr>plugin_name = ''Chrome PDF Plugin'', plugin_filename = ''internal-pdf-viewer'',
      plugin_description = ''Portable Document Format'', plugin_version = ''1.0''\<rparr>"

text \<open>The object literal of the \<open>return\<close> statement.\<close>

definition buildFingerprint :: "string \<Rightarrow> string \<Rightarrow> config \<Rightarrow> fingerprint" where
  "buildFingerprint deviceType createdBy finalConfig =
     \<lparr>fp_deviceType = deviceType,
      fp_browser = cfg_browser finalConfig,
      fp_screenOf =
        \<lparr>fp_width = width (cfg_screen finalConfig),
         fp_height = height (cfg_screen finalConfig),
         fp_availWidth = availWidth (cfg_screen finalConfig),
         fp_availHeight = availHeight (cfg_screen finalConfig),
         fp_colorDepth = orNumber (colorDepth (cfg_screen finalConfig)) 24,
         fp_pixelDepth = orNumber (pixelDepth (cfg_screen finalConfig)) 24,
         fp_devicePixelRatio = devicePixelRatio (cfg_screen finalConfig)\<rparr>,
      fp_navigatorOf =
        \<lparr>fp_platform = platform (cfg_navigator finalConfig),
         fp_language = ''en-US'',
         fp_languages = [''en-US'', ''en''],
         fp_vendor =
           (if browser_name (cfg_browser finalConfig) = ''chrome'' then ''Google Inc.'' else []),
         fp_product = ''Gecko'',
         fp_hardwareConcurrency = hardwareConcurrency (cfg_navigator finalConfig),
         fp_deviceMemory = deviceMemory (cfg_navigator finalConfig),
         fp_maxTouchPoints = maxTouchPoints (cfg_navigator finalConfig)\<rparr>,
      fp_timezone = ''America/New_York'',
      fp_plugins =
        (if deviceType = ''windows'' \<or> deviceType = ''mac'' then [pdfPlugin] else []),
      fp_mobile = cfg_mobile finalConfig,
      fp_createdBy = createdBy,
      fp_leadId = None\<rparr>"

text \<open>
  \<open>const config = deviceConfigs[deviceType] || deviceConfigs.windows\<close>: a category that
  is no property of the literal gets the windows configuration. For an inherited
  property name the copy \<open>finalConfig\<close> is empty, and the first access
  \<open>finalConfig.screen.width\<close> or \<open>finalConfig.navigator. ...\<close> raises a TypeError; the
  \<open>return\<close> statement reads \<open>finalConfig.screen.width\<close> on every path, so no draw and no
  spec avoids it.
\<close>

definition resolvedConfig :: "string \<Rightarrow> config option" where
  "resolvedConfig deviceType =
     (case deviceConfigs deviceType of
        Some c \<Rightarrow> Some c
      | None \<Rightarrow> if deviceType \<in> set objectPrototypeKeys then None else Some windowsConfig)"

definition generateFingerprint ::
  "string \<Rightarrow> string \<Rightarrow> device_specs option \<Rightarrow> rnd \<Rightarrow> error + fingerprint" where
  "generateFingerprint deviceType createdBy deviceSpecs d =
     (case resolvedConfig deviceType of
        None \<Rightarrow> Inl TypeError
      | Some config \<Rightarrow>
          Inr (buildFingerprint deviceType createdBy
                 (applyVariations deviceType deviceSpecs d (applySpecs deviceSpecs d config))))"

text \<open>
  The fingerprint collection: its documents by lead id, the lead ids on which a query
  rejects (a string that is no ObjectId, say), and the documents \<open>this.create\<close> refuses
  (schema validation, the unique index on \<open>deviceId\<close>).
\<close>

record fingerprint_collection =
  fc_docs :: "string \<rightharpoonup> fingerprint"
  fc_rejectedIds :: "string set"
  fc_refused :: "fingerprint \<Rightarrow> bool"

text \<open>
  \<open>createForLead\<close>. A missing argument (\<open>undefined\<close>, \<open>null\<close>) is the empty string, which
  is falsy as well. An error of \<open>this.findOne\<close> or \<open>this.create\<close> leaves the function as
  it is raised.
\<close>

definition invalidDeviceType :: "string \<Rightarrow> error" where
  "invalidDeviceType deviceType =
     Msg (''Invalid deviceType: '' @ deviceType @
          ''. Must be one of: windows, android, ios, mac'')"

definition createForLead ::
  "fingerprint_collection \<Rightarrow> string \<Rightarrow> string \<Rightarrow> string \<Rightarrow> device_specs option \<Rightarrow> rnd
     \<Rightarrow> error + (fingerprint \<times> fingerprint_collection)" where
  "createForLead coll leadId deviceType createdBy deviceSpecs d =
     (if leadId = [] then Inl (Msg ''leadId is required'')
      else if deviceType = [] then Inl (Msg ''deviceType is required'')
      else if createdBy = [] then Inl (Msg ''createdBy is required'')
      else if deviceType \<notin> set validDeviceTypes then Inl (invalidDeviceType deviceType)
      else if leadId \<in> fc_rejectedIds coll then Inl StoreError
      else if fc_docs coll leadId \<noteq> None
      then Inl (Msg ''Fingerprint already exists for this lead'')
      else (case generateFingerprint deviceType createdBy deviceSpecs d of
              Inl e \<Rightarrow> Inl e
            | Inr fingerprintData \<Rightarrow>
                (let doc = fingerprintData\<lparr>fp_leadId := Some leadId\<rparr>
                 in if fc_refused coll doc then Inl StoreError
                    else Inr (doc, coll\<lparr>fc_docs := (fc_docs coll)(leadId \<mapsto> doc)\<rparr>))))"

subsection \<open>Views of the constraint specification\<close>

text \<open>
  The sub-objects the source reaches through \<open>deviceSpecs.hardware.memory\<close>,
  \<open>deviceSpecs.hardware.cpu.cores\<close>, \<open>deviceSpecs.display.resolution.width\<close> and
  \<open>deviceSpecs.display.resolution.height\<close>.
\<close>

definition memorySpecOf :: "device_specs option \<Rightarrow> memory_spec option" where
  "memorySpecOf specs = Option.bind specs (\<lambda>s. Option.bind (ds_hardware s) hw_memory)"

definition coresSpecOf :: "device_specs option \<Rightarrow> num_range option" where
  "coresSpecOf specs =
     Option.bind specs
       (\<lambda>s. Option.bind (ds_hardware s) (\<lambda>h. Option.bind (hw_cpu h) cpu_cores))"

definition widthSpecOf :: "device_specs option \<Rightarrow> num_range option" where
  "widthSpecOf specs =
     Option.bind specs
       (\<lambda>s. Option.bind (ds_display s) (\<lambda>d. Option.bind (disp_resolution d) res_width))"

definition heightSpecOf :: "device_specs option \<Rightarrow> num_range option" where
  "heightSpecOf specs =
     Option.bind specs
       (\<lambda>s. Option.bind (ds_display s) (\<lambda>d. Option.bind (disp_resolution d) res_height))"

text \<open>The largest entry, in absolute value, of the core-count variations of a category.\<close>

definition coresJitterBound :: "string \<Rightarrow> number" where
  "coresJitterBound deviceType =
     (if deviceType = ''android'' \<or> deviceType = ''ios'' then 1 else 2)"

subsection \<open>Sample inputs\<close>

text \<open>Every \<open>Math.random()\<close> returns \<open>0.5\<close>.\<close>

definition half :: draw where
  "half k = k / 2"

definition halfDraws :: rnd where
  "halfDraws =
     \<lparr>draw_memory = half, draw_cores = half, draw_width = half, draw_height = half,
      draw_pixelRatio = (\<lambda>lo hi. (hi - lo) / 2 + lo), draw_colorDepth = half,
      draw_browser = half, var_width = half, var_height = half, var_cores = half,
      var_memory = half\<rparr>"

definition invertedMemory :: memory_spec where
  "invertedMemory = \<lparr>memory_min = Some 16, memory_max = Some 4, memory_preferred = None\<rparr>"

definition invertedMemorySpecs :: device_specs where
  "invertedMemorySpecs =
     \<lparr>ds_hardware = Some \<lparr>hw_memory = Some invertedMemory, hw_cpu = None\<rparr>,
      ds_display = None, ds_browser = None, ds_characteristics = None\<rparr>"

definition heightOnlySpecs :: device_specs where
  "heightOnlySpecs =
     \<lparr>ds_hardware = None,
      ds_display =
        Some \<lparr>disp_resolution =
                 Some \<lparr>res_width = None,
                       res_height = Some \<lparr>range_min = Some 800, range_max = Some 900\<rparr>\<rparr>,
               disp_pixelRatio = None, disp_colorDepth = None\<rparr>,
      ds_browser = None, ds_characteristics = None\<rparr>"

text \<open>
  A spec whose \<open>hardware.memory\<close> and \<open>display.resolution.width\<close> are the empty object:
  neither gives a bound.
\<close>

definition unboundedSpecs :: device_specs where
  "unboundedSpecs =
     \<lparr>ds_hardware =
        Some \<lparr>hw_memory =
                 Some \<lparr>memory_min = None, memory_max = None, memory_preferred = None\<rparr>,
               hw_cpu = None\<rparr>,
      ds_display =
        Some \<lparr>disp_resolution =
                 Some \<lparr>res_width = Some \<lparr>range_min = None, range_max = None\<rparr>,
                       res_height = None\<rparr>,
               disp_pixelRatio = None, disp_colorDepth = None\<rparr>,
      ds_browser = None, ds_characteristics = None\<rparr>"

definition emptyCollection :: fingerprint_collection where
  "emptyCollection = \<lparr>fc_docs = Map.empty, fc_rejectedIds = {}, fc_refused = (\<lambda>_. False)\<rparr>"

text \<open>The fingerprint of an android lead whose spec constrains the height only.\<close>

definition sampleFingerprint :: fingerprint where
  "sampleFingerprint =
     projr (generateFingerprint ''android'' ''u1'' (Some heightOnlySpecs) halfDraws)"

section \<open>Session management (services/sessionManagementService.js)\<close>

subsection \<open>Records, files and leads\<close>

text \<open>
  A time is a number of milliseconds since the epoch. The payload of a session is kept
  as the service stores it; cookies and storage entries are strings.
\<close>

type_synonym time = int

record session_payload =
  cookies :: "string list"
  localStorage :: "(string \<times> string) list"
  sessionStorage :: "(string \<times> string) list"
  userAgent :: "string option"
  viewport :: "(nat \<times> nat) option"
  deviceFingerprint :: "string option"
  finalDomain :: "string option"

text \<open>The \<open>sessionData\<close> argument of \<open>storeSession\<close>: every property may be missing.\<close>

record session_input =
  in_cookies :: "string list option"
  in_localStorage :: "(string \<times> string) list option"
  in_sessionStorage :: "(string \<times> string) list option"
  in_userAgent :: "string option"
  in_viewport :: "(nat \<times> nat) option"
  in_deviceFingerprint :: "string option"
  in_finalDomain :: "string option"

record session_record =
  rec_sessionId :: string
  rec_leadId :: string
  rec_orderId :: string
  rec_createdAt :: time
  rec_sessionData :: session_payload
  rec_status :: string
  rec_lastUsed :: time
  rec_assignedAgent :: "string option"
  rec_assignedAt :: "time option"

text \<open>
  A file of the sessions directory holds the JSON of a session record, as \<open>storeSession\<close>
  wrote it, or it is damaged: \<open>Unreadable\<close> exists but \<open>fs.readFile\<close> rejects, and
  \<open>Unparseable\<close> is read but \<open>JSON.parse\<close> throws. \<open>JSON.stringify\<close> followed by
  \<open>JSON.parse\<close> gives the record back. The directory is an association list from file
  name to content, in the order \<open>fs.readdir\<close> lists it; \<open>path.join(sessionsDir, name)\<close>
  is represented by \<open>name\<close>. \<open>fs.writeFile\<close> and \<open>fs.unlink\<close> succeed.
\<close>

datatype file_content = Unreadable | Unparseable | Json session_record

text \<open>The \<open>sessionData\<close> sub-document of a lead: the back-reference to the session.\<close>

record lead_session =
  ref_sessionId :: "string option"
  ref_sessionPath :: "string option"
  ref_createdAt :: "time option"
  ref_status :: "string option"
  ref_assignedAgent :: "string option"
  ref_assignedAt :: "time option"

text \<open>
  The Lead model is not part of the sources; a lead carries the fields the service reads
  and writes. Ids are strings, and \<open>assignedTo.toString()\<close> is the stored id.
\<close>

record lead =
  firstName :: "string option"
  lastName :: "string option"
  newEmail :: "string option"
  newPhone :: "string option"
  phone :: "string option"
  country :: "string option"
  assignedTo :: "string option"
  assignedAt :: "time option"
  isAssigned :: bool
  sessionData :: "lead_session option"

record lead_info =
  info_firstName :: "string option"
  info_lastName :: "string option"
  info_email :: "string option"
  info_phone :: "string option"
  info_country :: "string option"

record launch_data =
  launch_leadId :: string
  launch_agentId :: string
  launch_sessionData :: session_payload
  launch_leadInfo :: lead_info

text \<open>
  The world the service acts on: the sessions directory, the Lead collection, the ids on
  which a call of the Lead collection rejects (a string that is no ObjectId, say), and
  the launch requests handed to \<open>spawn\<close>, oldest first.
\<close>

record world =
  files :: "(string \<times> file_content) list"
  leads :: "string \<rightharpoonup> lead"
  rejectedIds :: "string set"
  launched :: "launch_data list"

subsection \<open>Helpers\<close>

text \<open>\<open>!s\<close> on an optional string: \<open>undefined\<close>, \<open>null\<close> and the empty string are falsy.\<close>

definition falsy :: "string option \<Rightarrow> bool" where
  "falsy s \<longleftrightarrow> s = None \<or> s = Some []"

text \<open>\<open>s || null\<close>.\<close>

definition orNull :: "string option \<Rightarrow> string option" where
  "orNull s = (if falsy s then None else s)"

text \<open>\<open>a || b\<close> on optional strings.\<close>

definition orElse :: "string option \<Rightarrow> string option \<Rightarrow> string option" where
  "orElse a b = (if falsy a then b else a)"

definition endsWith :: "string \<Rightarrow> string \<Rightarrow> bool" where
  "endsWith s suffix \<longleftrightarrow>
     length suffix \<le> length s \<and> drop (length s - length suffix) s = suffix"

text \<open>The decimal rendering of a number in a template string.\<close>

definition digit :: "int \<Rightarrow> char" where
  "digit n = ''0123456789'' ! nat (n mod 10)"

function decimal :: "int \<Rightarrow> string" where
  "decimal n = (if n < 10 then [digit n] else decimal (n div 10) @ [digit n])"
  by pat_completeness auto
termination
  by (relation "measure nat") auto

declare decimal.simps [simp del]

definition showTime :: "time \<Rightarrow> string" where
  "showTime t = (if t < 0 then CHR ''-'' # decimal (- t) else decimal t)"

text \<open>
  \<open>generateSessionId\<close>; \<open>timestamp\<close> is \<open>Date.now()\<close> and \<open>randomBytes\<close> the hexadecimal
  rendering of \<open>crypto.randomBytes(8)\<close>.
\<close>

definition generateSessionId :: "string \<Rightarrow> string \<Rightarrow> time \<Rightarrow> string \<Rightarrow> string" where
  "generateSessionId leadId orderId timestamp randomBytes =
     ''session_'' @ leadId @ ''_'' @ orderId @ ''_'' @ showTime timestamp @ ''_'' @ randomBytes"

text \<open>
  \<open>Lead.findById\<close>, and \<open>Lead.findByIdAndUpdate\<close> with an update \<open>f\<close>: the update of an id
  that has no document changes nothing.
\<close>

definition findById :: "world \<Rightarrow> string \<Rightarrow> error + lead option" where
  "findById w leadId = (if leadId \<in> rejectedIds w then Inl StoreError else Inr (leads w leadId))"

definition findByIdAndUpdate ::
  "world \<Rightarrow> string \<Rightarrow> (lead \<Rightarrow> lead) \<Rightarrow> error + (lead option \<times> world)" where
  "findByIdAndUpdate w leadId f =
     (if leadId \<in> rejectedIds w then Inl StoreError
      else (case leads w leadId of
              None \<Rightarrow> Inr (None, w)
            | Some l \<Rightarrow> Inr (Some (f l), w\<lparr>leads := (leads w)(leadId \<mapsto> f l)\<rparr>)))"

definition emptyRef :: lead_session where
  "emptyRef =
     \<lparr>ref_sessionId = None, ref_sessionPath = None, ref_createdAt = None, ref_status = None,
      ref_assignedAgent = None, ref_assignedAt = None\<rparr>"

text \<open>The sub-document a \<open>$set\<close> of \<open>sessionData.*\<close> paths starts from.\<close>

definition refOf :: "lead \<Rightarrow> lead_session" where
  "refOf l = (case sessionData l of None \<Rightarrow> emptyRef | Some sd \<Rightarrow> sd)"

subsection \<open>storeSession\<close>

record store_result =
  stored_sessionId :: string
  stored_sessionPath :: string

definition payloadOf :: "session_input \<Rightarrow> session_payload" where
  "payloadOf sd =
     \<lparr>cookies = (case in_cookies sd of None \<Rightarrow> [] | Some c \<Rightarrow> c),
      localStorage = (case in_localStorage sd of None \<Rightarrow> [] | Some m \<Rightarrow> m),
      sessionStorage = (case in_sessionStorage sd of None \<Rightarrow> [] | Some m \<Rightarrow> m),
      userAgent = orNull (in_userAgent sd),
      viewport = in_viewport sd,
      deviceFingerprint = orNull (in_deviceFingerprint sd),
      finalDomain = orNull (in_finalDomain sd)\<rparr>"

definition newRecord ::
  "string \<Rightarrow> string \<Rightarrow> string \<Rightarrow> session_input \<Rightarrow> time \<Rightarrow> session_record" where
  "newRecord sid leadId orderId sd now =
     \<lparr>rec_sessionId = sid, rec_leadId = leadId, rec_orderId = orderId, rec_createdAt = now,
      rec_sessionData = payloadOf sd, rec_status = ''active'', rec_lastUsed = now,
      rec_assignedAgent = None, rec_assignedAt = None\<rparr>"

definition setSessionRef :: "string \<Rightarrow> string \<Rightarrow> time \<Rightarrow> lead \<Rightarrow> lead" where
  "setSessionRef sid path now l =
     l\<lparr>sessionData :=
         Some ((refOf l)\<lparr>ref_sessionId := Some sid, ref_sessionPath := Some path,
                         ref_createdAt := Some now, ref_status := Some ''active''\<rparr>)\<rparr>"

text \<open>
  One reading \<open>now\<close> of the clock stands for the \<open>Date.now()\<close> and \<open>new Date()\<close> of one
  call. A \<open>sessionData\<close> argument that is \<open>undefined\<close> raises a TypeError at its first
  property access. The \<open>catch\<close> block rethrows with a prefixed message; what was written
  before the error stays written.
\<close>

definition storeSession ::
  "world \<Rightarrow> string \<Rightarrow> string \<Rightarrow> session_input option \<Rightarrow> time \<Rightarrow> string
     \<Rightarrow> (error + store_result) \<times> world" where
  "storeSession w leadId orderId sessionDataArg now randomBytes =
     (let sessionId = generateSessionId leadId orderId now randomBytes;
          sessionPath = sessionId @ ''.json''
      in (case sessionDataArg of
            None \<Rightarrow> (Inl (Wrapped ''Failed to store session: '' TypeError), w)
          | Some sd \<Rightarrow>
              (let w1 = w\<lparr>files :=
                          AList.update sessionPath
                            (Json (newRecord sessionId leadId orderId sd now)) (files w)\<rparr>
               in (case findByIdAndUpdate w1 leadId (setSessionRef sessionId sessionPath now) of
                     Inl e \<Rightarrow> (Inl (Wrapped ''Failed to store session: '' e), w1)
                   | Inr (_, w2) \<Rightarrow>
                       (Inr \<lparr>stored_sessionId = sessionId, stored_sessionPath = sessionPath\<rparr>,
                        w2)))))"

subsection \<open>retrieveSession\<close>

record retrieve_result =
  got_sessionData :: session_payload
  got_sessionId :: string
  got_createdAt :: time
  got_lastUsed :: time

definition retrieveFailed :: "error \<Rightarrow> error" where
  "retrieveFailed e = Wrapped ''Failed to retrieve session: '' e"

definition noSessionData :: error where
  "noSessionData = Msg ''No session data found for this lead''"

definition fileInaccessible :: error where
  "fileInaccessible = Msg ''Session file not found or inaccessible''"

text \<open>
  \<open>fs.access\<close> of a path that is \<open>undefined\<close> throws inside the inner \<open>try\<close>, as the access
  of a missing file does.
\<close>

definition retrieveSession ::
  "world \<Rightarrow> string \<Rightarrow> time \<Rightarrow> (error + retrieve_result) \<times> world" where
  "retrieveSession w leadId now =
     (case findById w leadId of
        Inl e \<Rightarrow> (Inl (retrieveFailed e), w)
      | Inr None \<Rightarrow> (Inl (retrieveFailed noSessionData), w)
      | Inr (Some l) \<Rightarrow>
          (case sessionData l of
             None \<Rightarrow> (Inl (retrieveFailed noSessionData), w)
           | Some sd \<Rightarrow>
               if falsy (ref_sessionId sd) then (Inl (retrieveFailed noSessionData), w)
               else (case ref_sessionPath sd of
                       None \<Rightarrow> (Inl (retrieveFailed fileInaccessible), w)
                     | Some sessionPath \<Rightarrow>
                         (case map_of (files w) sessionPath of
                            None \<Rightarrow> (Inl (retrieveFailed fileInaccessible), w)
                          | Some Unreadable \<Rightarrow> (Inl (retrieveFailed FsError), w)
                          | Some Unparseable \<Rightarrow> (Inl (retrieveFailed JsonSyntaxError), w)
                          | Some (Json sessionRecord) \<Rightarrow>
                              (let r = sessionRecord\<lparr>rec_lastUsed := now\<rparr>
                               in (Inr \<lparr>got_sessionData = rec_sessionData r,
                                        got_sessionId = rec_sessionId r,
                                        got_createdAt = rec_createdAt r,
                                        got_lastUsed = rec_lastUsed r\<rparr>,
                                   w\<lparr>files :=
                                       AList.update sessionPath (Json r) (files w)\<rparr>))))))"

subsection \<open>hasActiveSession\<close>

text \<open>
  The body of the outer \<open>try\<close>: the lookup may raise; the inner \<open>try\<close> turns a failed
  \<open>fs.access\<close> into \<open>false\<close>.
\<close>

definition hasActiveSession_try :: "world \<Rightarrow> string \<Rightarrow> error + bool" where
  "hasActiveSession_try w leadId =
     (case findById w leadId of
        Inl e \<Rightarrow> Inl e
      | Inr None \<Rightarrow> Inr False
      | Inr (Some l) \<Rightarrow>
          (case sessionData l of
             None \<Rightarrow> Inr False
           | Some sd \<Rightarrow>
               if falsy (ref_sessionId sd) then Inr False
               else (case ref_sessionPath sd of
                       None \<Rightarrow> Inr False
                     | Some sessionPath \<Rightarrow>
                         (case map_of (files w) sessionPath of
                            None \<Rightarrow> Inr False
                          | Some _ \<Rightarrow> Inr (ref_status sd = Some ''active'')))))"

definition hasActiveSession :: "world \<Rightarrow> string \<Rightarrow> error + bool" where
  "hasActiveSession w leadId =
     (case hasActiveSession_try w leadId of Inl e \<Rightarrow> Inr False | Inr b \<Rightarrow> Inr b)"

subsection \<open>assignSessionToAgent\<close>

record assign_result =
  assigned_leadId :: string
  assigned_agentId :: string
  assigned_sessionId :: "string option"

definition setAssignment :: "string \<Rightarrow> time \<Rightarrow> lead \<Rightarrow> lead" where
  "setAssignment agentId now l =
     l\<lparr>assignedTo := Some agentId, assignedAt := Some now, isAssigned := True,
       sessionData :=
         Some ((refOf l)\<lparr>ref_assignedAgent := Some agentId, ref_assignedAt := Some now\<rparr>)\<rparr>"

text \<open>The inner \<open>try\<close>: a file that cannot be read or parsed is left as it is.\<close>

definition noteAssignment :: "string \<Rightarrow> time \<Rightarrow> lead \<Rightarrow> world \<Rightarrow> world" where
  "noteAssignment agentId now l w =
     (case sessionData l of
        None \<Rightarrow> w
      | Some sd \<Rightarrow>
          (case ref_sessionPath sd of
             None \<Rightarrow> w
           | Some sessionPath \<Rightarrow>
               if sessionPath = [] then w
               else (case map_of (files w) sessionPath of
                       Some (Json sessionRecord) \<Rightarrow>
                         w\<lparr>files :=
                             AList.update sessionPath
                               (Json (sessionRecord\<lparr>rec_assignedAgent := Some agentId,
                                                    rec_assignedAt := Some now\<rparr>))
                               (files w)\<rparr>
                     | _ \<Rightarrow> w)))"

definition assignFailed :: "error \<Rightarrow> error" where
  "assignFailed e = Wrapped ''Failed to assign session to agent: '' e"

definition assignSessionToAgent ::
  "world \<Rightarrow> string \<Rightarrow> string \<Rightarrow> time \<Rightarrow> (error + assign_result) \<times> world" where
  "assignSessionToAgent w leadId agentId now =
     (case findByIdAndUpdate w leadId (setAssignment agentId now) of
        Inl e \<Rightarrow> (Inl (assignFailed e), w)
      | Inr (None, w1) \<Rightarrow> (Inl (assignFailed (Msg ''Lead not found'')), w1)
      | Inr (Some l, w1) \<Rightarrow>
          (Inr \<lparr>assigned_leadId = leadId, assigned_agentId = agentId,
                assigned_sessionId = Option.bind (sessionData l) ref_sessionId\<rparr>,
           noteAssignment agentId now l w1))"

subsection \<open>launchAgentBrowser\<close>

definition launchFailed :: "error \<Rightarrow> error" where
  "launchFailed e = Wrapped ''Failed to launch agent browser: '' e"

definition notAssigned :: error where
  "notAssigned = Msg ''Lead is not assigned to this agent''"

definition leadInfoOf :: "lead \<Rightarrow> lead_info" where
  "leadInfoOf l =
     \<lparr>info_firstName = firstName l, info_lastName = lastName l, info_email = newEmail l,
      info_phone = orElse (newPhone l) (phone l), info_country = country l\<rparr>"

text \<open>
  \<open>spawn\<close> hands the launch request to the driver and returns; the model records the
  request in \<open>launched\<close>. The driver's output and exit code do not reach the result.
\<close>

definition launchAgentBrowser ::
  "world \<Rightarrow> string \<Rightarrow> string \<Rightarrow> time \<Rightarrow> (error + launch_data) \<times> world" where
  "launchAgentBrowser w leadId agentId now =
     (case findById w leadId of
        Inl e \<Rightarrow> (Inl (launchFailed e), w)
      | Inr None \<Rightarrow> (Inl (launchFailed (Msg ''Lead not found'')), w)
      | Inr (Some l) \<Rightarrow>
          if falsy (assignedTo l) \<or> assignedTo l \<noteq> Some agentId
          then (Inl (launchFailed notAssigned), w)
          else (case retrieveSession w leadId now of
                  (Inl e, w1) \<Rightarrow> (Inl (launchFailed e), w1)
                | (Inr sessionResult, w1) \<Rightarrow>
                    (let browserLaunchData =
                           \<lparr>launch_leadId = leadId, launch_agentId = agentId,
                            launch_sessionData = got_sessionData sessionResult,
                            launch_leadInfo = leadInfoOf l\<rparr>
                     in (Inr browserLaunchData,
                         w1\<lparr>launched := launched w1 @ [browserLaunchData]\<rparr>))))"

subsection \<open>cleanupOldSessions\<close>

text \<open>
  A \<open>Date\<close> reads and sets its calendar fields in the local time zone of the process.
  The zone is given by its offset from UTC in milliseconds, at an instant (the
  language's \<open>LocalTZA(t, true)\<close>) and at a local time (\<open>LocalTZA(t, false)\<close>).
\<close>

record zone =
  offsetAtInstant :: "time \<Rightarrow> int"
  offsetAtLocal :: "int \<Rightarrow> int"

definition dayMs :: int where
  "dayMs = 86400000"

definition localTime :: "zone \<Rightarrow> time \<Rightarrow> int" where
  "localTime z t = t + offsetAtInstant z t"

definition utcOfLocal :: "zone \<Rightarrow> int \<Rightarrow> time" where
  "utcOfLocal z t = t - offsetAtLocal z t"

text \<open>
  \<open>cutoffDate.setDate(cutoffDate.getDate() - maxAgeDays)\<close> on \<open>new Date()\<close>: the local
  calendar date moves back by \<open>maxAgeDays\<close> days, the local time of day stays, and the
  result is read back as an instant.
\<close>

definition cutoffDate :: "zone \<Rightarrow> time \<Rightarrow> int \<Rightarrow> time" where
  "cutoffDate z now maxAgeDays = utcOfLocal z (localTime z now - maxAgeDays * dayMs)"

definition unsetSessionData :: "lead \<Rightarrow> lead" where
  "unsetSessionData l = l\<lparr>sessionData := None\<rparr>"

text \<open>
  The \<open>for\<close> loop over the listing, threading the world and the two counters. A name that
  is no longer in the directory makes \<open>fs.readFile\<close> reject. An error after \<open>fs.unlink\<close>
  is counted for a record that is already deleted.
\<close>

fun sweep :: "time \<Rightarrow> string list \<Rightarrow> world \<times> nat \<times> nat \<Rightarrow> world \<times> nat \<times> nat" where
  "sweep cutoff [] acc = acc"
| "sweep cutoff (file # rest) (w, deletedCount, errorCount) =
     sweep cutoff rest
       (if \<not> endsWith file ''.json'' then (w, deletedCount, errorCount)
        else (case map_of (files w) file of
                None \<Rightarrow> (w, deletedCount, Suc errorCount)
              | Some Unreadable \<Rightarrow> (w, deletedCount, Suc errorCount)
              | Some Unparseable \<Rightarrow> (w, deletedCount, Suc errorCount)
              | Some (Json sessionRecord) \<Rightarrow>
                  if rec_createdAt sessionRecord < cutoff
                  then (let w1 = w\<lparr>files := AList.delete file (files w)\<rparr>
                        in (case findByIdAndUpdate w1 (rec_leadId sessionRecord) unsetSessionData of
                              Inl e \<Rightarrow> (w1, Suc deletedCount, Suc errorCount)
                            | Inr (_, w2) \<Rightarrow> (w2, Suc deletedCount, errorCount)))
                  else (w, deletedCount, errorCount)))"

record cleanup_result =
  deletedCount :: nat
  errorCount :: nat

definition cleanupOldSessions ::
  "world \<Rightarrow> zone \<Rightarrow> int \<Rightarrow> time \<Rightarrow> (error + cleanup_result) \<times> world" where
  "cleanupOldSessions w z maxAgeDays now =
     (case sweep (cutoffDate z now maxAgeDays) (map fst (files w)) (w, 0, 0) of
        (w1, d, e) \<Rightarrow> (Inr \<lparr>deletedCount = d, errorCount = e\<rparr>, w1))"


subsection \<open>Notions the properties are stated with\<close>

text \<open>
  The back-reference of a lead, as the guard
  \<open>!lead || !lead.sessionData || !lead.sessionData.sessionId\<close> reads it, and the file
  it points to.
\<close>

definition backRef :: "world \<Rightarrow> string \<Rightarrow> lead_session option" where
  "backRef w leadId =
     (case leads w leadId of
        None \<Rightarrow> None
      | Some l \<Rightarrow> (case sessionData l of
                     None \<Rightarrow> None
                   | Some sd \<Rightarrow> if falsy (ref_sessionId sd) then None else Some sd))"

definition backingFile :: "world \<Rightarrow> lead_session \<Rightarrow> file_content option" where
  "backingFile w sd = Option.bind (ref_sessionPath sd) (map_of (files w))"

text \<open>The errors of \<open>retrieveSession\<close> for a session whose file cannot be used.\<close>

definition sessionUnavailable :: "error \<Rightarrow> bool" where
  "sessionUnavailable e \<longleftrightarrow>
     e = retrieveFailed fileInaccessible \<or> e = retrieveFailed FsError \<or>
     e = retrieveFailed JsonSyntaxError"

text \<open>The session ids of the records of a lead that carry the status \<open>active\<close>.\<close>

fun activeRecord :: "string \<Rightarrow> string \<times> file_content \<Rightarrow> string list" where
  "activeRecord leadId (name, Json r) =
     (if rec_leadId r = leadId \<and> rec_status r = ''active'' then [rec_sessionId r] else [])"
| "activeRecord leadId (name, _) = []"

definition activeRecordsOf :: "world \<Rightarrow> string \<Rightarrow> string list" where
  "activeRecordsOf w leadId = concat (map (activeRecord leadId) (files w))"

text \<open>
  An entry of the directory is expired when it is a \<open>.json\<close> file holding a record
  created before the cutoff, and damaged when it is a \<open>.json\<close> file that cannot be read
  or parsed. \<open>updateRejected\<close>: the record is expired and the Lead collection rejects
  the update of its lead.
\<close>

definition expired :: "time \<Rightarrow> string \<times> file_content \<Rightarrow> bool" where
  "expired cutoff entry \<longleftrightarrow>
     endsWith (fst entry) ''.json'' \<and>
     (case snd entry of Json r \<Rightarrow> rec_createdAt r < cutoff | _ \<Rightarrow> False)"

definition damaged :: "string \<times> file_content \<Rightarrow> bool" where
  "damaged entry \<longleftrightarrow>
     endsWith (fst entry) ''.json'' \<and> (snd entry = Unreadable \<or> snd entry = Unparseable)"

definition updateRejected :: "world \<Rightarrow> time \<Rightarrow> string \<times> file_content \<Rightarrow> bool" where
  "updateRejected w cutoff entry \<longleftrightarrow>
     expired cutoff entry \<and>
     (case snd entry of Json r \<Rightarrow> rec_leadId r \<in> rejectedIds w | _ \<Rightarrow> False)"

fun expiredLead :: "time \<Rightarrow> string \<times> file_content \<Rightarrow> string list" where
  "expiredLead cutoff (name, Json r) =
     (if expired cutoff (name, Json r) then [rec_leadId r] else [])"
| "expiredLead cutoff (name, _) = []"

definition expiredLeadIds :: "time \<Rightarrow> (string \<times> file_content) list \<Rightarrow> string list" where
  "expiredLeadIds cutoff entries = concat (map (expiredLead cutoff) entries)"

text \<open>The Lead collection after \<open>$unset: { sessionData: 1 }\<close> on the leads \<open>ids\<close>.\<close>

definition clearedLeads :: "world \<Rightarrow> string list \<Rightarrow> string \<Rightarrow> lead option" where
  "clearedLeads w ids l =
     (if l \<in> set ids \<and> l \<notin> rejectedIds w then map_option unsetSessionData (leads w l)
      else leads w l)"

text \<open>One round of the loop, for a name whose entry in the directory is known.\<close>

definition stepWorld :: "time \<Rightarrow> string \<times> file_content \<Rightarrow> world \<Rightarrow> world" where
  "stepWorld cutoff entry w =
     (if expired cutoff entry
      then w\<lparr>files := AList.delete (fst entry) (files w),
             leads := clearedLeads w (expiredLead cutoff entry)\<rparr>
      else w)"

subsection \<open>Sample worlds\<close>

definition sampleLead :: lead where
  "sampleLead =
     \<lparr>firstName = Some ''Ada'', lastName = Some ''Byron'', newEmail = Some ''ada@example.org'',
      newPhone = None, phone = Some ''555'', country = Some ''UK'', assignedTo = None,
      assignedAt = None, isAssigned = False, sessionData = None\<rparr>"

definition sampleInput :: session_input where
  "sampleInput =
     \<lparr>in_cookies = Some [''sid=1''], in_localStorage = None, in_sessionStorage = None,
      in_userAgent = Some ''Mozilla/5.0'', in_viewport = Some (1280, 720),
      in_deviceFingerprint = None, in_finalDomain = Some ''example.org''\<rparr>"

definition world0 :: world where
  "world0 = \<lparr>files = [], leads = [''L1'' \<mapsto> sampleLead], rejectedIds = {}, launched = []\<rparr>"

text \<open>\<open>world1\<close>: lead \<open>L1\<close> after a first capture; \<open>world2\<close>: after a second one.\<close>

definition world1 :: world where
  "world1 = snd (storeSession world0 ''L1'' ''O1'' (Some sampleInput) 1700000000000 ''00000000000000aa'')"

definition world2 :: world where
  "world2 = snd (storeSession world1 ''L1'' ''O1'' (Some sampleInput) 1700000050000 ''00000000000000bb'')"

text \<open>\<open>world3\<close>: the session of \<open>L1\<close> assigned to agent \<open>A1\<close>.\<close>

definition world3 :: world where
  "world3 = snd (assignSessionToAgent world1 ''L1'' ''A1'' 1700000020000)"

text \<open>\<open>lostWorld\<close>: the back-reference of \<open>L1\<close> is there, the file is gone.\<close>

definition lostWorld :: world where
  "lostWorld = world1\<lparr>files := []\<rparr>"

text \<open>
  \<open>sweepWorld\<close>, read at day 40 with \<open>maxAgeDays = 30\<close>: a record of day 0, a record of
  day 35, a file that is no JSON, and a file that is no \<open>.json\<close> file.
\<close>

definition sweepWorld :: world where
  "sweepWorld =
     \<lparr>files =
        [(''old.json'', Json (newRecord ''old'' ''L1'' ''O1'' sampleInput 0)),
         (''new.json'', Json (newRecord ''new'' ''L2'' ''O1'' sampleInput (35 * dayMs))),
         (''bad.json'', Unparseable),
         (''notes.txt'', Unreadable)],
      leads =
        [''L1'' \<mapsto> setSessionRef ''old'' ''old.json'' 0 sampleLead,
         ''L2'' \<mapsto> setSessionRef ''new'' ''new.json'' (35 * dayMs) sampleLead],
      rejectedIds = {}, launched = []\<rparr>"

text \<open>
  \<open>springZone\<close>: five hours behind UTC until the instant 1710054000000 (10 March 2024,
  07:00 UTC) and four hours behind from then on, the change New York made on that day.
  A local time is read with the offset before the change up to 03:00 of that day.
\<close>

definition springZone :: zone where
  "springZone =
     \<lparr>offsetAtInstant = (\<lambda>t. if t < 1710054000000 then - 18000000 else - 14400000),
      offsetAtLocal = (\<lambda>t. if t < 1710039600000 then - 18000000 else - 14400000)\<rparr>"

text \<open>
  \<open>marchWorld\<close>, read at 1710950400000 (20 March 2024, 16:00 UTC) with
  \<open>maxAgeDays = 30\<close>: one record, created at 1708360200000 (19 February 2024, 16:30
  UTC), half an hour less than thirty days of 24 hours before.
\<close>

definition marchWorld :: world where
  "marchWorld =
     \<lparr>files = [(''feb.json'', Json (newRecord ''feb'' ''L1'' ''O1'' sampleInput 1708360200000))],
      leads = [''L1'' \<mapsto> setSessionRef ''feb'' ''feb.json'' 1708360200000 sampleLead],
      rejectedIds = {}, launched = []\<rparr>"

section \<open>Properties of the fingerprint synthesis\<close>

subsection \<open>Draws\<close>

lemma unit_draw_nonneg:
  assumes "unit_draw r" "0 \<le> k"
  shows "0 \<le> r k" "r k \<le> k"
  using assms by (simp_all add: unit_draw_def)

lemma unit_draw_below:
  assumes "unit_draw r" "1 \<le> k"
  shows "r k < k"
  using assms by (simp add: unit_draw_def)

lemma unit_draw_nonpos:
  assumes "unit_draw r" "k \<le> 0"
  shows "k \<le> r k" "r k \<le> 0"
  using assms by (simp_all add: unit_draw_def)

lemma randomIndex_less:
  assumes "unit_draw r" "0 < n"
  shows "randomIndex r n < n"
proof -
  have k: "(1::rat) \<le> of_nat n" using assms(2) by simp
  have "r (of_nat n) < of_nat n"
    using unit_draw_below [OF assms(1) k] .
  then have "\<lfloor>r (of_nat n)\<rfloor> < int n"
    by (simp add: floor_less_iff)
  moreover have "0 \<le> \<lfloor>r (of_nat n)\<rfloor>"
    using unit_draw_nonneg(1) [OF assms(1), of "of_nat n"] by simp
  ultimately show ?thesis
    unfolding randomIndex_def by (simp only: nat_less_iff)
qed

text \<open>
  With \<open>max < min\<close> the integer draw does not fail: the factor \<open>max - min + 1\<close> is below
  one, the floor of the product is at most zero and at least \<open>max - min\<close>, and the
  value lies between \<open>max\<close> and \<open>min\<close>.
\<close>

lemma randomInRange_inverted:
  assumes "unit_draw r" "hi < lo"
  shows "hi \<le> randomInRange r lo hi \<and> randomInRange r lo hi \<le> lo"
proof -
  define n where "n = hi - lo + 1"
  have n1: "n < 1" using assms by (simp add: n_def)
  have up: "r n < 1" and low: "n \<le> r n \<or> 0 \<le> r n"
  proof -
    show "r n < 1"
    proof (cases "0 \<le> n")
      case True
      then show ?thesis using unit_draw_nonneg(2) [OF assms(1) True] n1 by simp
    next
      case False
      then have "n \<le> 0" by simp
      then show ?thesis using unit_draw_nonpos(2) [OF assms(1)] by fastforce
    qed
    show "n \<le> r n \<or> 0 \<le> r n"
    proof (cases "0 \<le> n")
      case True
      then show ?thesis using unit_draw_nonneg(1) [OF assms(1) True] by simp
    next
      case False
      then have "n \<le> 0" by simp
      then show ?thesis using unit_draw_nonpos(1) [OF assms(1)] by simp
    qed
  qed
  have fl_up: "\<lfloor>r n\<rfloor> \<le> 0" using up by (simp add: floor_le_iff)
  have fl_lo: "r n - 1 < of_int \<lfloor>r n\<rfloor>" by linarith
  have "hi - lo \<le> of_int \<lfloor>r n\<rfloor>"
    using low
  proof
    assume "n \<le> r n"
    then show ?thesis using fl_lo by (simp add: n_def)
  next
    assume "0 \<le> r n"
    then have "0 \<le> \<lfloor>r n\<rfloor>" by simp
    then have "(0::rat) \<le> of_int \<lfloor>r n\<rfloor>" by simp
    then show ?thesis using assms by linarith
  qed
  moreover have "(of_int \<lfloor>r n\<rfloor> :: rat) \<le> 0" using fl_up by simp
  ultimately show ?thesis
    by (simp add: randomInRange_def n_def)
qed

lemma randomVariation_band:
  assumes "unit_draw r" "vs \<noteq> []" "\<forall>v \<in> set vs. \<bar>v\<bar> \<le> k" "1 \<le> base"
  shows "\<bar>randomVariation r base vs - base\<bar> \<le> k"
proof -
  have "randomIndex r (length vs) < length vs"
    using assms by (simp add: randomIndex_less)
  then have "vs ! randomIndex r (length vs) \<in> set vs" by simp
  then have "\<bar>vs ! randomIndex r (length vs)\<bar> \<le> k" using assms by blast
  then show ?thesis
    using assms(4) by (simp add: randomVariation_def max_def abs_if split: if_splits)
qed

lemma band_width:
  assumes "unit_draw r" "1 \<le> b"
  shows "\<bar>randomVariation r b variations_screenWidth - b\<bar> \<le> 2"
  using assms by (intro randomVariation_band) (auto simp: variations_screenWidth_def)

lemma band_height:
  assumes "unit_draw r" "1 \<le> b"
  shows "\<bar>randomVariation r b variations_screenHeight - b\<bar> \<le> 2"
  using assms by (intro randomVariation_band) (auto simp: variations_screenHeight_def)

lemma band_cores:
  assumes "unit_draw r" "1 \<le> b"
  shows "\<bar>randomVariation r b (variations_hardwareConcurrency dt) - b\<bar> \<le> coresJitterBound dt"
  using assms
  by (intro randomVariation_band)
     (auto simp: variations_hardwareConcurrency_def coresJitterBound_def)

lemma band_memory:
  assumes "unit_draw r" "1 \<le> b"
  shows "\<bar>randomVariation r b variations_deviceMemory - b\<bar> \<le> 1"
  using assms by (intro randomVariation_band) (auto simp: variations_deviceMemory_def)

subsection \<open>The configuration of a category\<close>

lemma resolvedConfig_cases:
  assumes "resolvedConfig dt = Some c"
  shows "c = windowsConfig \<or> c = androidConfig \<or> c = iosConfig \<or> c = macConfig"
  using assms by (auto simp: resolvedConfig_def deviceConfigs_def split: if_splits)

lemma default_screen_consistent:
  assumes "resolvedConfig dt = Some c"
  shows "availWidth (cfg_screen c) = width (cfg_screen c) \<and>
         availHeight (cfg_screen c) \<le> height (cfg_screen c)"
  using resolvedConfig_cases [OF assms]
  by (auto simp: windowsConfig_def androidConfig_def iosConfig_def macConfig_def)

lemma defaults_at_least_one:
  assumes "resolvedConfig dt = Some c"
  shows "1 \<le> width (cfg_screen c)" "1 \<le> height (cfg_screen c)"
    "1 \<le> hardwareConcurrency (cfg_navigator c)" "1 \<le> deviceMemory (cfg_navigator c)"
  using resolvedConfig_cases [OF assms]
  by (auto simp: windowsConfig_def androidConfig_def iosConfig_def macConfig_def)

lemma generateFingerprint_Inr:
  assumes "generateFingerprint deviceType createdBy specs d = Inr fp"
  obtains c where "resolvedConfig deviceType = Some c"
    and "fp = buildFingerprint deviceType createdBy
                (applyVariations deviceType specs d (applySpecs specs d c))"
  using assms by (auto simp: generateFingerprint_def split: option.splits)

lemma generateFingerprint_total:
  assumes "deviceType \<notin> set objectPrototypeKeys"
  obtains c where "resolvedConfig deviceType = Some c"
    and "generateFingerprint deviceType createdBy specs d =
           Inr (buildFingerprint deviceType createdBy
                  (applyVariations deviceType specs d (applySpecs specs d c)))"
  using assms
  by (cases "deviceConfigs deviceType") (auto simp: generateFingerprint_def resolvedConfig_def)

subsection \<open>The screen stays consistent\<close>

lemma applyDisplay_availWidth:
  "availWidth scr = width scr \<Longrightarrow>
   availWidth (applyDisplay dsp d scr) = width (applyDisplay dsp d scr)"
  by (simp add: applyDisplay_def applyResolution_def Let_def split: option.splits)

lemma applyDisplay_availHeight:
  "availHeight scr \<le> height scr \<Longrightarrow>
   availHeight (applyDisplay dsp d scr) \<le> height (applyDisplay dsp d scr)"
  by (simp add: applyDisplay_def applyResolution_def Let_def split: option.splits)

lemma varyScreen_availWidth:
  "availWidth scr = width scr \<Longrightarrow>
   availWidth (varyScreen specs d scr) = width (varyScreen specs d scr)"
  by (simp add: varyScreen_def Let_def)

lemma varyScreen_availHeight:
  "availHeight scr \<le> height scr \<Longrightarrow>
   availHeight (varyScreen specs d scr) \<le> height (varyScreen specs d scr)"
  by (simp add: varyScreen_def Let_def)

lemma applySpecs_screen:
  "cfg_screen (applySpecs specs d c) =
     (case specs of
        None \<Rightarrow> cfg_screen c
      | Some s \<Rightarrow> applyDisplay (ds_display s) d (cfg_screen c))"
  by (simp add: applySpecs_def split: option.splits)

lemma final_screen_consistent:
  assumes "resolvedConfig dt = Some c"
  shows "availWidth (cfg_screen (applyVariations dt specs d (applySpecs specs d c)))
           = width (cfg_screen (applyVariations dt specs d (applySpecs specs d c)))
       \<and> availHeight (cfg_screen (applyVariations dt specs d (applySpecs specs d c)))
           \<le> height (cfg_screen (applyVariations dt specs d (applySpecs specs d c)))"
  using default_screen_consistent [OF assms]
  by (cases specs)
     (simp_all add: applyVariations_def applySpecs_screen varyScreen_availWidth
        varyScreen_availHeight applyDisplay_availWidth applyDisplay_availHeight)

subsection \<open>The resolved configuration, field by field\<close>

lemma applyCharacteristics_keeps:
  "deviceMemory (applyCharacteristics ch nav) = deviceMemory nav"
  "hardwareConcurrency (applyCharacteristics ch nav) = hardwareConcurrency nav"
  by (simp_all add: applyCharacteristics_def split: option.splits)

lemma applyCpu_memory: "deviceMemory (applyCpu c d nav) = deviceMemory nav"
  by (simp add: applyCpu_def split: option.splits)

lemma applyMemory_cores: "hardwareConcurrency (applyMemory m d nav) = hardwareConcurrency nav"
  by (simp add: applyMemory_def Let_def)

lemma applyMemory_value:
  "deviceMemory (applyMemory m d nav) =
     (case memory_preferred m of
        Some (p # ps) \<Rightarrow> (p # ps) ! randomIndex (draw_memory d) (length (p # ps))
      | _ \<Rightarrow> randomInRange (draw_memory d) (orNumber (memory_min m) 4)
               (orNumber (memory_max m) 16))"
  by (simp add: applyMemory_def Let_def split: option.splits list.splits)

lemma resolved_memory:
  "deviceMemory (cfg_navigator (applySpecs specs d c)) =
     (case memorySpecOf specs of
        None \<Rightarrow> deviceMemory (cfg_navigator c)
      | Some m \<Rightarrow> deviceMemory (applyMemory m d (cfg_navigator c)))"
  by (simp add: applySpecs_def memorySpecOf_def applyHardware_def applyCharacteristics_keeps
      applyCpu_memory applyMemory_def Let_def split: option.splits)

lemma resolved_cores:
  "hardwareConcurrency (cfg_navigator (applySpecs specs d c)) =
     (case coresSpecOf specs of
        None \<Rightarrow> hardwareConcurrency (cfg_navigator c)
      | Some cores \<Rightarrow> randomInRange (draw_cores d) (orNumber (range_min cores) 2)
                        (orNumber (range_max cores) 8))"
  by (simp add: applySpecs_def coresSpecOf_def applyHardware_def applyCharacteristics_keeps
      applyCpu_def applyMemory_cores split: option.splits)

lemma resolved_width:
  "width (cfg_screen (applySpecs specs d c)) =
     (case widthSpecOf specs of
        None \<Rightarrow> width (cfg_screen c)
      | Some w \<Rightarrow> randomInRange (draw_width d) (orNumber (range_min w) 1280)
                    (orNumber (range_max w) 1920))"
  by (simp add: applySpecs_def widthSpecOf_def applyDisplay_def applyResolution_def Let_def
      split: option.splits)

lemma resolved_height:
  "height (cfg_screen (applySpecs specs d c)) =
     (case heightSpecOf specs of
        None \<Rightarrow> height (cfg_screen c)
      | Some h \<Rightarrow> randomInRange (draw_height d) (orNumber (range_min h) 720)
                    (orNumber (range_max h) 1080))"
  by (simp add: applySpecs_def heightSpecOf_def applyDisplay_def applyResolution_def Let_def
      split: option.splits)

lemma memoryGiven_iff: "memoryGiven specs \<longleftrightarrow> memorySpecOf specs \<noteq> None"
  by (simp add: memoryGiven_def memorySpecOf_def split: option.splits)

lemma coresSpec_cpuGiven: "coresSpecOf specs = Some cores \<Longrightarrow> cpuGiven specs"
  by (auto simp: cpuGiven_def coresSpecOf_def bind_eq_Some_conv)

lemma widthSpec_resolutionGiven: "widthSpecOf specs = Some w \<Longrightarrow> resolutionGiven specs"
  by (auto simp: resolutionGiven_def widthSpecOf_def bind_eq_Some_conv)

lemma heightSpec_resolutionGiven: "heightSpecOf specs = Some h \<Longrightarrow> resolutionGiven specs"
  by (auto simp: resolutionGiven_def heightSpecOf_def bind_eq_Some_conv)

subsection \<open>The variation block, field by field\<close>

lemma final_memory:
  "deviceMemory (cfg_navigator (applyVariations dt specs d rc)) =
     (if memoryGiven specs then deviceMemory (cfg_navigator rc)
      else randomVariation (var_memory d) (deviceMemory (cfg_navigator rc))
             variations_deviceMemory)"
  by (simp add: applyVariations_def varyNavigator_def Let_def)

lemma final_cores:
  "hardwareConcurrency (cfg_navigator (applyVariations dt specs d rc)) =
     (if cpuGiven specs then hardwareConcurrency (cfg_navigator rc)
      else randomVariation (var_cores d) (hardwareConcurrency (cfg_navigator rc))
             (variations_hardwareConcurrency dt))"
  by (simp add: applyVariations_def varyNavigator_def Let_def)

lemma final_width:
  "width (cfg_screen (applyVariations dt specs d rc)) =
     (if resolutionGiven specs then width (cfg_screen rc)
      else randomVariation (var_width d) (width (cfg_screen rc)) variations_screenWidth)"
  by (simp add: applyVariations_def varyScreen_def Let_def)

lemma final_height:
  "height (cfg_screen (applyVariations dt specs d rc)) =
     (if resolutionGiven specs then height (cfg_screen rc)
      else randomVariation (var_height d) (height (cfg_screen rc)) variations_screenHeight)"
  by (simp add: applyVariations_def varyScreen_def Let_def)

subsection \<open>Each numeric field of the result\<close>

lemma fp_width_cases:
  assumes c: "resolvedConfig dt = Some c" and d: "unit_draws d"
  shows "(case widthSpecOf specs of
            Some w \<Rightarrow>
              width (cfg_screen (applyVariations dt specs d (applySpecs specs d c))) =
                randomInRange (draw_width d) (orNumber (range_min w) 1280)
                  (orNumber (range_max w) 1920)
          | None \<Rightarrow>
              \<bar>width (cfg_screen (applyVariations dt specs d (applySpecs specs d c)))
                 - width (cfg_screen c)\<bar> \<le> 2)"
proof (cases "widthSpecOf specs")
  case None
  have "unit_draw (var_width d)" using d by (simp add: unit_draws_def)
  then show ?thesis
    using None defaults_at_least_one(1) [OF c]
    by (simp add: final_width resolved_width band_width)
next
  case (Some w)
  then show ?thesis
    by (simp add: final_width resolved_width widthSpec_resolutionGiven)
qed

lemma fp_height_cases:
  assumes c: "resolvedConfig dt = Some c" and d: "unit_draws d"
  shows "(case heightSpecOf specs of
            Some h \<Rightarrow>
              height (cfg_screen (applyVariations dt specs d (applySpecs specs d c))) =
                randomInRange (draw_height d) (orNumber (range_min h) 720)
                  (orNumber (range_max h) 1080)
          | None \<Rightarrow>
              \<bar>height (cfg_screen (applyVariations dt specs d (applySpecs specs d c)))
                 - height (cfg_screen c)\<bar> \<le> 2)"
proof (cases "heightSpecOf specs")
  case None
  have "unit_draw (var_height d)" using d by (simp add: unit_draws_def)
  then show ?thesis
    using None defaults_at_least_one(2) [OF c]
    by (simp add: final_height resolved_height band_height)
next
  case (Some h)
  then show ?thesis
    by (simp add: final_height resolved_height heightSpec_resolutionGiven)
qed

lemma fp_cores_cases:
  assumes c: "resolvedConfig dt = Some c" and d: "unit_draws d"
  shows "(case coresSpecOf specs of
            Some cores \<Rightarrow>
              hardwareConcurrency
                (cfg_navigator (applyVariations dt specs d (applySpecs specs d c))) =
                randomInRange (draw_cores d) (orNumber (range_min cores) 2)
                  (orNumber (range_max cores) 8)
          | None \<Rightarrow>
              \<bar>hardwareConcurrency
                  (cfg_navigator (applyVariations dt specs d (applySpecs specs d c)))
                 - hardwareConcurrency (cfg_navigator c)\<bar> \<le> coresJitterBound dt)"
proof (cases "coresSpecOf specs")
  case None
  have "unit_draw (var_cores d)" using d by (simp add: unit_draws_def)
  moreover have "0 \<le> coresJitterBound dt" by (simp add: coresJitterBound_def)
  ultimately show ?thesis
    using None defaults_at_least_one(3) [OF c]
    by (simp add: final_cores resolved_cores band_cores)
next
  case (Some cores)
  then show ?thesis
    by (simp add: final_cores resolved_cores coresSpec_cpuGiven)
qed

lemma fp_memory_cases:
  assumes c: "resolvedConfig dt = Some c" and d: "unit_draws d"
  shows "(case memorySpecOf specs of
            Some m \<Rightarrow>
              deviceMemory (cfg_navigator (applyVariations dt specs d (applySpecs specs d c))) =
                deviceMemory (applyMemory m d (cfg_navigator c))
          | None \<Rightarrow>
              \<bar>deviceMemory (cfg_navigator (applyVariations dt specs d (applySpecs specs d c)))
                 - deviceMemory (cfg_navigator c)\<bar> \<le> 1)"
proof (cases "memorySpecOf specs")
  case None
  have "unit_draw (var_memory d)" using d by (simp add: unit_draws_def)
  then show ?thesis
    using None defaults_at_least_one(4) [OF c]
    by (simp add: final_memory resolved_memory band_memory memoryGiven_iff)
next
  case (Some m)
  then show ?thesis
    by (simp add: final_memory resolved_memory memoryGiven_iff)
qed

lemma unit_draw_half: "unit_draw half"
  by (simp add: unit_draw_def half_def)

lemma sample_draws: "unit_draws halfDraws"
  by (simp add: unit_draws_def unit_draw_half halfDraws_def)

lemma sample_fingerprint:
  "generateFingerprint ''android'' ''u1'' (Some heightOnlySpecs) halfDraws = Inr sampleFingerprint"
proof -
  have "\<not> isl (generateFingerprint ''android'' ''u1'' (Some heightOnlySpecs) halfDraws)"
    by (simp add: generateFingerprint_def resolvedConfig_def deviceConfigs_def)
  then show ?thesis by (simp add: sampleFingerprint_def)
qed

subsection \<open>C1: a range with min above max\<close>

text \<open>
  C1 claims that a ConstraintSpec with \<open>min > max\<close> on a numeric range is rejected with
  an InvalidConstraint error before any output. The source has no check of the ranges
  and no such error. With \<open>hardware.memory = {min: 16, max: 4}\<close> and every draw at
  \<open>0.5\<close>, \<open>generateFingerprint\<close> returns a fingerprint for \<open>windows\<close> whose
  \<open>deviceMemory\<close> is \<open>Math.floor(0.5 * (4 - 16 + 1)) + 16 = 10\<close>: a value drawn from
  the inverted range.
\<close>

theorem inverted_range_counterexample:
  "\<not> isl (generateFingerprint ''windows'' ''u1'' (Some invertedMemorySpecs) halfDraws) \<and>
   fp_deviceMemory (fp_navigatorOf
     (projr (generateFingerprint ''windows'' ''u1'' (Some invertedMemorySpecs) halfDraws))) = 10"
  by code_simp

text \<open>
  C1, amended: whatever the ranges of the ConstraintSpec are, also with \<open>min > max\<close> on
  memory, cores, width, height or pixel ratio, \<open>generateFingerprint\<close> raises no error
  and returns a fingerprint (for every category string that is no inherited property
  name of an object). For memory (without a preferred list), core count, width and
  height, a range with \<open>min > max\<close>, after the \<open>||\<close> defaults, is neither rejected nor
  clamped: the value is drawn from the inverted range, between \<open>max\<close> and \<open>min\<close>.
\<close>

theorem inverted_range_is_drawn_from:
  assumes "deviceType \<notin> set objectPrototypeKeys" and "unit_draws d"
  shows "\<exists>fp. generateFingerprint deviceType createdBy deviceSpecs d = Inr fp \<and>
    (\<forall>m. memorySpecOf deviceSpecs = Some m \<and>
          (memory_preferred m = None \<or> memory_preferred m = Some []) \<and>
          orNumber (memory_max m) 16 < orNumber (memory_min m) 4 \<longrightarrow>
          orNumber (memory_max m) 16 \<le> fp_deviceMemory (fp_navigatorOf fp) \<and>
          fp_deviceMemory (fp_navigatorOf fp) \<le> orNumber (memory_min m) 4) \<and>
    (\<forall>c. coresSpecOf deviceSpecs = Some c \<and>
          orNumber (range_max c) 8 < orNumber (range_min c) 2 \<longrightarrow>
          orNumber (range_max c) 8 \<le> fp_hardwareConcurrency (fp_navigatorOf fp) \<and>
          fp_hardwareConcurrency (fp_navigatorOf fp) \<le> orNumber (range_min c) 2) \<and>
    (\<forall>w. widthSpecOf deviceSpecs = Some w \<and>
          orNumber (range_max w) 1920 < orNumber (range_min w) 1280 \<longrightarrow>
          orNumber (range_max w) 1920 \<le> fp_width (fp_screenOf fp) \<and>
          fp_width (fp_screenOf fp) \<le> orNumber (range_min w) 1280) \<and>
    (\<forall>h. heightSpecOf deviceSpecs = Some h \<and>
          orNumber (range_max h) 1080 < orNumber (range_min h) 720 \<longrightarrow>
          orNumber (range_max h) 1080 \<le> fp_height (fp_screenOf fp) \<and>
          fp_height (fp_screenOf fp) \<le> orNumber (range_min h) 720)"
proof -
  from assms(1) obtain c where c: "resolvedConfig deviceType = Some c"
    and g: "generateFingerprint deviceType createdBy deviceSpecs d =
              Inr (buildFingerprint deviceType createdBy
                     (applyVariations deviceType deviceSpecs d (applySpecs deviceSpecs d c)))"
    by (rule generateFingerprint_total)
  let ?fc = "applyVariations deviceType deviceSpecs d (applySpecs deviceSpecs d c)"
  let ?fp = "buildFingerprint deviceType createdBy ?fc"
  have draws: "unit_draw (draw_memory d)" "unit_draw (draw_cores d)" "unit_draw (draw_width d)"
    "unit_draw (draw_height d)"
    using assms(2) by (simp_all add: unit_draws_def)
  have mem: "orNumber (memory_max m) 16 \<le> fp_deviceMemory (fp_navigatorOf ?fp) \<and>
             fp_deviceMemory (fp_navigatorOf ?fp) \<le> orNumber (memory_min m) 4"
    if "memorySpecOf deviceSpecs = Some m"
      "memory_preferred m = None \<or> memory_preferred m = Some []"
      "orNumber (memory_max m) 16 < orNumber (memory_min m) 4" for m
  proof -
    have "fp_deviceMemory (fp_navigatorOf ?fp) =
            randomInRange (draw_memory d) (orNumber (memory_min m) 4) (orNumber (memory_max m) 16)"
      using fp_memory_cases [OF c assms(2), of deviceSpecs] that(1,2)
      by (auto simp: buildFingerprint_def applyMemory_value)
    then show ?thesis
      using randomInRange_inverted [OF draws(1) that(3)] by simp
  qed
  have cores: "orNumber (range_max k) 8 \<le> fp_hardwareConcurrency (fp_navigatorOf ?fp) \<and>
               fp_hardwareConcurrency (fp_navigatorOf ?fp) \<le> orNumber (range_min k) 2"
    if "coresSpecOf deviceSpecs = Some k" "orNumber (range_max k) 8 < orNumber (range_min k) 2"
    for k
  proof -
    have "fp_hardwareConcurrency (fp_navigatorOf ?fp) =
            randomInRange (draw_cores d) (orNumber (range_min k) 2) (orNumber (range_max k) 8)"
      using fp_cores_cases [OF c assms(2), of deviceSpecs] that(1)
      by (simp add: buildFingerprint_def)
    then show ?thesis
      using randomInRange_inverted [OF draws(2) that(2)] by simp
  qed
  have wd: "orNumber (range_max w) 1920 \<le> fp_width (fp_screenOf ?fp) \<and>
            fp_width (fp_screenOf ?fp) \<le> orNumber (range_min w) 1280"
    if "widthSpecOf deviceSpecs = Some w"
      "orNumber (range_max w) 1920 < orNumber (range_min w) 1280" for w
  proof -
    have "fp_width (fp_screenOf ?fp) =
            randomInRange (draw_width d) (orNumber (range_min w) 1280) (orNumber (range_max w) 1920)"
      using fp_width_cases [OF c assms(2), of deviceSpecs] that(1)
      by (simp add: buildFingerprint_def)
    then show ?thesis
      using randomInRange_inverted [OF draws(3) that(2)] by simp
  qed
  have ht: "orNumber (range_max h) 1080 \<le> fp_height (fp_screenOf ?fp) \<and>
            fp_height (fp_screenOf ?fp) \<le> orNumber (range_min h) 720"
    if "heightSpecOf deviceSpecs = Some h"
      "orNumber (range_max h) 1080 < orNumber (range_min h) 720" for h
  proof -
    have "fp_height (fp_screenOf ?fp) =
            randomInRange (draw_height d) (orNumber (range_min h) 720) (orNumber (range_max h) 1080)"
      using fp_height_cases [OF c assms(2), of deviceSpecs] that(1)
      by (simp add: buildFingerprint_def)
    then show ?thesis
      using randomInRange_inverted [OF draws(4) that(2)] by simp
  qed
  show ?thesis
    unfolding g using mem cores wd ht by blast
qed

theorem inverted_range_is_drawn_from_witness:
  "''windows'' \<notin> set objectPrototypeKeys \<and> unit_draws halfDraws \<and>
   memorySpecOf (Some invertedMemorySpecs) = Some invertedMemory \<and>
   memory_preferred invertedMemory = None \<and>
   orNumber (memory_max invertedMemory) 16 < orNumber (memory_min invertedMemory) 4 \<and>
   (\<exists>fp. generateFingerprint ''windows'' ''u1'' (Some invertedMemorySpecs) halfDraws = Inr fp \<and>
         4 \<le> fp_deviceMemory (fp_navigatorOf fp) \<and> fp_deviceMemory (fp_navigatorOf fp) \<le> 16)"
proof -
  have h1: "''windows'' \<notin> set objectPrototypeKeys"
    by (simp add: objectPrototypeKeys_def)
  have h2: "unit_draws halfDraws"
    by (rule sample_draws)
  have h3: "memorySpecOf (Some invertedMemorySpecs) = Some invertedMemory"
    by (simp add: memorySpecOf_def invertedMemorySpecs_def)
  have h4: "memory_preferred invertedMemory = None"
    by (simp add: invertedMemory_def)
  have h5: "orNumber (memory_max invertedMemory) 16 < orNumber (memory_min invertedMemory) 4"
    by (simp add: invertedMemory_def orNumber_def)
  have v: "orNumber (memory_max invertedMemory) 16 = 4"
    "orNumber (memory_min invertedMemory) 4 = 16"
    by (simp_all add: invertedMemory_def orNumber_def)
  from inverted_range_is_drawn_from [OF h1 h2, of "''u1''" "Some invertedMemorySpecs"]
  obtain fp where
    "generateFingerprint ''windows'' ''u1'' (Some invertedMemorySpecs) halfDraws = Inr fp"
    and "\<forall>m. memorySpecOf (Some invertedMemorySpecs) = Some m \<and>
          (memory_preferred m = None \<or> memory_preferred m = Some []) \<and>
          orNumber (memory_max m) 16 < orNumber (memory_min m) 4 \<longrightarrow>
          orNumber (memory_max m) 16 \<le> fp_deviceMemory (fp_navigatorOf fp) \<and>
          fp_deviceMemory (fp_navigatorOf fp) \<le> orNumber (memory_min m) 4"
    by blast
  with h3 h4 h5 v
  have "generateFingerprint ''windows'' ''u1'' (Some invertedMemorySpecs) halfDraws = Inr fp \<and>
        4 \<le> fp_deviceMemory (fp_navigatorOf fp) \<and> fp_deviceMemory (fp_navigatorOf fp) \<le> 16"
    by metis
  with h1 h2 h3 h4 h5 show ?thesis by blast
qed

subsection \<open>C3: a category outside the enum\<close>

text \<open>
  C3 claims that the synthesis fails with an UnsupportedCategory error for every
  category outside \<open>windows\<close>, \<open>android\<close>, \<open>ios\<close>, \<open>mac\<close>. \<open>generateFingerprint\<close> does not:
  for \<open>linux\<close> the lookup \<open>deviceConfigs[deviceType]\<close> is \<open>undefined\<close>, the windows
  configuration takes its place, and a fingerprint of device type \<open>linux\<close> with the
  platform \<open>Win32\<close> comes out.
\<close>

theorem unknown_category_counterexample:
  "\<not> isl (generateFingerprint ''linux'' ''u1'' None halfDraws) \<and>
   fp_deviceType (projr (generateFingerprint ''linux'' ''u1'' None halfDraws)) = ''linux'' \<and>
   fp_platform (fp_navigatorOf (projr (generateFingerprint ''linux'' ''u1'' None halfDraws)))
     = ''Win32''"
  by code_simp

text \<open>
  C3, amended: the category is checked by \<open>createForLead\<close>, not by the synthesis. For
  every category outside the enum \<open>createForLead\<close> fails and stores nothing; the error
  is \<open>Invalid deviceType: ...\<close> when lead id, category and creator are all given (one of
  the \<open>... is required\<close> errors otherwise). \<open>generateFingerprint\<close>, called with such a
  category, falls back to the windows configuration and returns a fingerprint (unless
  the category is an inherited property name of an object).
\<close>

theorem createForLead_rejects_unknown_category:
  assumes "deviceType \<notin> set validDeviceTypes"
  shows "(\<exists>e. createForLead coll leadId deviceType createdBy deviceSpecs d = Inl e) \<and>
         (leadId \<noteq> [] \<and> deviceType \<noteq> [] \<and> createdBy \<noteq> [] \<longrightarrow>
            createForLead coll leadId deviceType createdBy deviceSpecs d =
              Inl (invalidDeviceType deviceType)) \<and>
         (deviceType \<notin> set objectPrototypeKeys \<longrightarrow>
            generateFingerprint deviceType createdBy deviceSpecs d =
              Inr (buildFingerprint deviceType createdBy
                     (applyVariations deviceType deviceSpecs d
                        (applySpecs deviceSpecs d windowsConfig))))"
proof -
  have "deviceConfigs deviceType = None"
    using assms by (simp add: deviceConfigs_def validDeviceTypes_def)
  then show ?thesis
    using assms by (simp add: createForLead_def generateFingerprint_def resolvedConfig_def)
qed

theorem createForLead_rejects_unknown_category_witness:
  "''linux'' \<notin> set validDeviceTypes \<and>
   createForLead emptyCollection ''lead1'' ''linux'' ''u1'' None halfDraws =
     Inl (invalidDeviceType ''linux'')"
proof -
  have h: "''linux'' \<notin> set validDeviceTypes" by (simp add: validDeviceTypes_def)
  from createForLead_rejects_unknown_category
         [OF h, of emptyCollection "''lead1''" "''u1''" None halfDraws]
  show ?thesis using h by simp
qed

subsection \<open>C4: constrained fields are exact, the others stay in their band\<close>

text \<open>
  C4 claims that a field the ConstraintSpec does not explicitly constrain lands within
  the default of the category plus or minus the jitter bound. The source decides by
  the presence of the sub-object, not of a bound: with \<open>hardware.memory = {}\<close> and
  \<open>display.resolution.width = {}\<close> no bound is given, yet memory is drawn from the
  hard-coded range 4..16 and width from 1280..1920, without jitter. For \<open>android\<close>
  with every draw at \<open>0.5\<close> the memory is \<open>Math.floor(0.5 * 13) + 4 = 10\<close> against the
  default 8, and the width \<open>Math.floor(0.5 * 641) + 1280 = 1600\<close> against the default
  428.
\<close>

theorem unbounded_object_counterexample:
  "Option.bind (memorySpecOf (Some unboundedSpecs)) memory_min = None \<and>
   Option.bind (memorySpecOf (Some unboundedSpecs)) memory_max = None \<and>
   Option.bind (memorySpecOf (Some unboundedSpecs)) memory_preferred = None \<and>
   Option.bind (widthSpecOf (Some unboundedSpecs)) range_min = None \<and>
   Option.bind (widthSpecOf (Some unboundedSpecs)) range_max = None \<and>
   \<not> isl (generateFingerprint ''android'' ''u1'' (Some unboundedSpecs) halfDraws) \<and>
   deviceMemory (cfg_navigator androidConfig) = 8 \<and>
   fp_deviceMemory (fp_navigatorOf
     (projr (generateFingerprint ''android'' ''u1'' (Some unboundedSpecs) halfDraws))) = 10 \<and>
   width (cfg_screen androidConfig) = 428 \<and>
   fp_width (fp_screenOf
     (projr (generateFingerprint ''android'' ''u1'' (Some unboundedSpecs) halfDraws))) = 1600"
  by code_simp

text \<open>
  C4, amended: a field counts as constrained when the ConstraintSpec contains its
  sub-object (\<open>display.resolution.width\<close>, \<open>display.resolution.height\<close>,
  \<open>hardware.cpu.cores\<close>, \<open>hardware.memory\<close>), whether or not the sub-object gives a
  bound. For a category with the configuration \<open>config\<close> and draws in the unit
  interval, a constrained width, height, core count or memory of the fingerprint is
  the value resolved from the sub-object, which no variation draw enters: the draw
  from its range, where a missing or zero bound is replaced by the hard-coded one
  (1280..1920, 720..1080, 2..8, 4..16), or the pick from a non-empty preferred memory
  list. A field whose sub-object is absent differs from the default of the category
  by at most 2 (width, height), by at most 1 (cores on android and ios) or 2 (cores
  elsewhere), and by at most 1 (memory).
\<close>

theorem constrained_exact_unconstrained_in_band:
  assumes "resolvedConfig deviceType = Some config"
    and "unit_draws d"
    and "generateFingerprint deviceType createdBy deviceSpecs d = Inr fp"
  shows
    "(case widthSpecOf deviceSpecs of
        Some w \<Rightarrow> fp_width (fp_screenOf fp) =
                    randomInRange (draw_width d) (orNumber (range_min w) 1280)
                      (orNumber (range_max w) 1920)
      | None \<Rightarrow> \<bar>fp_width (fp_screenOf fp) - width (cfg_screen config)\<bar> \<le> 2) \<and>
     (case heightSpecOf deviceSpecs of
        Some h \<Rightarrow> fp_height (fp_screenOf fp) =
                    randomInRange (draw_height d) (orNumber (range_min h) 720)
                      (orNumber (range_max h) 1080)
      | None \<Rightarrow> \<bar>fp_height (fp_screenOf fp) - height (cfg_screen config)\<bar> \<le> 2) \<and>
     (case coresSpecOf deviceSpecs of
        Some cores \<Rightarrow> fp_hardwareConcurrency (fp_navigatorOf fp) =
                    randomInRange (draw_cores d) (orNumber (range_min cores) 2)
                      (orNumber (range_max cores) 8)
      | None \<Rightarrow> \<bar>fp_hardwareConcurrency (fp_navigatorOf fp)
                   - hardwareConcurrency (cfg_navigator config)\<bar>
                 \<le> coresJitterBound deviceType) \<and>
     (case memorySpecOf deviceSpecs of
        Some m \<Rightarrow> fp_deviceMemory (fp_navigatorOf fp) =
                    (case memory_preferred m of
                       Some (p # ps) \<Rightarrow>
                         (p # ps) ! randomIndex (draw_memory d) (length (p # ps))
                     | _ \<Rightarrow> randomInRange (draw_memory d) (orNumber (memory_min m) 4)
                              (orNumber (memory_max m) 16))
      | None \<Rightarrow> \<bar>fp_deviceMemory (fp_navigatorOf fp)
                   - deviceMemory (cfg_navigator config)\<bar> \<le> 1)"
proof -
  from assms(3) obtain c where c: "resolvedConfig deviceType = Some c"
    and fp: "fp = buildFingerprint deviceType createdBy
                    (applyVariations deviceType deviceSpecs d (applySpecs deviceSpecs d c))"
    by (rule generateFingerprint_Inr)
  from c assms(1) have cc: "c = config" by simp
  let ?fc = "applyVariations deviceType deviceSpecs d (applySpecs deviceSpecs d config)"
  have w: "fp_width (fp_screenOf fp) = width (cfg_screen ?fc)"
    and h: "fp_height (fp_screenOf fp) = height (cfg_screen ?fc)"
    and k: "fp_hardwareConcurrency (fp_navigatorOf fp) = hardwareConcurrency (cfg_navigator ?fc)"
    and m: "fp_deviceMemory (fp_navigatorOf fp) = deviceMemory (cfg_navigator ?fc)"
    by (simp_all add: fp cc buildFingerprint_def)
  have 1: "case widthSpecOf deviceSpecs of
        Some w \<Rightarrow> fp_width (fp_screenOf fp) =
                    randomInRange (draw_width d) (orNumber (range_min w) 1280)
                      (orNumber (range_max w) 1920)
      | None \<Rightarrow> \<bar>fp_width (fp_screenOf fp) - width (cfg_screen config)\<bar> \<le> 2"
    unfolding w by (rule fp_width_cases [OF assms(1,2)])
  have 2: "case heightSpecOf deviceSpecs of
        Some h \<Rightarrow> fp_height (fp_screenOf fp) =
                    randomInRange (draw_height d) (orNumber (range_min h) 720)
                      (orNumber (range_max h) 1080)
      | None \<Rightarrow> \<bar>fp_height (fp_screenOf fp) - height (cfg_screen config)\<bar> \<le> 2"
    unfolding h by (rule fp_height_cases [OF assms(1,2)])
  have 3: "case coresSpecOf deviceSpecs of
        Some cores \<Rightarrow> fp_hardwareConcurrency (fp_navigatorOf fp) =
                    randomInRange (draw_cores d) (orNumber (range_min cores) 2)
                      (orNumber (range_max cores) 8)
      | None \<Rightarrow> \<bar>fp_hardwareConcurrency (fp_navigatorOf fp)
                   - hardwareConcurrency (cfg_navigator config)\<bar>
                 \<le> coresJitterBound deviceType"
    unfolding k by (rule fp_cores_cases [OF assms(1,2)])
  have 4: "case memorySpecOf deviceSpecs of
        Some m \<Rightarrow> fp_deviceMemory (fp_navigatorOf fp) =
                    (case memory_preferred m of
                       Some (p # ps) \<Rightarrow>
                         (p # ps) ! randomIndex (draw_memory d) (length (p # ps))
                     | _ \<Rightarrow> randomInRange (draw_memory d) (orNumber (memory_min m) 4)
                              (orNumber (memory_max m) 16))
      | None \<Rightarrow> \<bar>fp_deviceMemory (fp_navigatorOf fp)
                   - deviceMemory (cfg_navigator config)\<bar> \<le> 1"
    unfolding m using fp_memory_cases [OF assms(1,2), of deviceSpecs]
    by (simp add: applyMemory_value split: option.splits)
  from 1 2 3 4 show ?thesis by (intro conjI)
qed

theorem constrained_exact_unconstrained_in_band_witness:
  "resolvedConfig ''android'' = Some androidConfig \<and> unit_draws halfDraws \<and>
   generateFingerprint ''android'' ''u1'' (Some heightOnlySpecs) halfDraws
     = Inr sampleFingerprint \<and>
   \<bar>fp_width (fp_screenOf sampleFingerprint) - 428\<bar> \<le> 2 \<and>
   fp_height (fp_screenOf sampleFingerprint) = 850 \<and>
   \<bar>fp_hardwareConcurrency (fp_navigatorOf sampleFingerprint) - 8\<bar> \<le> 1 \<and>
   \<bar>fp_deviceMemory (fp_navigatorOf sampleFingerprint) - 8\<bar> \<le> 1"
proof -
  have h1: "resolvedConfig ''android'' = Some androidConfig"
    by (simp add: resolvedConfig_def deviceConfigs_def)
  have s: "widthSpecOf (Some heightOnlySpecs) = None"
    "heightSpecOf (Some heightOnlySpecs) = Some \<lparr>range_min = Some 800, range_max = Some 900\<rparr>"
    "coresSpecOf (Some heightOnlySpecs) = None"
    "memorySpecOf (Some heightOnlySpecs) = None"
    by (simp_all add: widthSpecOf_def heightSpecOf_def coresSpecOf_def memorySpecOf_def
        heightOnlySpecs_def)
  have v: "randomInRange (draw_height halfDraws) (orNumber (Some 800) 720)
             (orNumber (Some 900) 1080) = 850"
    by code_simp
  have c: "width (cfg_screen androidConfig) = 428" "height (cfg_screen androidConfig) = 926"
    "hardwareConcurrency (cfg_navigator androidConfig) = 8"
    "deviceMemory (cfg_navigator androidConfig) = 8" "coresJitterBound ''android'' = 1"
    by (simp_all add: androidConfig_def coresJitterBound_def)
  from constrained_exact_unconstrained_in_band [OF h1 sample_draws sample_fingerprint]
  show ?thesis
    using h1 sample_draws sample_fingerprint by (simp add: s v c)
qed

subsection \<open>C5: the fingerprint is internally consistent\<close>

text \<open>
  C5: every fingerprint \<open>generateFingerprint\<close> returns, for any category, spec and
  draws, has \<open>availHeight \<le> height\<close> and \<open>availWidth \<le> width\<close>; for \<open>android\<close> and \<open>ios\<close>
  the plugin list is empty, and a fingerprint with a plugin is of category \<open>windows\<close> or
  \<open>mac\<close>.
\<close>

theorem fingerprint_internally_consistent:
  assumes "generateFingerprint deviceType createdBy deviceSpecs d = Inr fp"
  shows "fp_availHeight (fp_screenOf fp) \<le> fp_height (fp_screenOf fp) \<and>
         fp_availWidth (fp_screenOf fp) \<le> fp_width (fp_screenOf fp) \<and>
         (deviceType = ''android'' \<or> deviceType = ''ios'' \<longrightarrow> fp_plugins fp = []) \<and>
         (fp_plugins fp \<noteq> [] \<longrightarrow> deviceType = ''windows'' \<or> deviceType = ''mac'')"
proof -
  from assms obtain c where c: "resolvedConfig deviceType = Some c"
    and fp: "fp = buildFingerprint deviceType createdBy
                    (applyVariations deviceType deviceSpecs d (applySpecs deviceSpecs d c))"
    by (rule generateFingerprint_Inr)
  show ?thesis
    using final_screen_consistent [OF c, of deviceSpecs d]
    by (simp add: fp buildFingerprint_def)
qed

theorem fingerprint_internally_consistent_witness:
  "generateFingerprint ''android'' ''u1'' (Some heightOnlySpecs) halfDraws
     = Inr sampleFingerprint \<and>
   fp_availHeight (fp_screenOf sampleFingerprint) \<le> fp_height (fp_screenOf sampleFingerprint) \<and>
   fp_availWidth (fp_screenOf sampleFingerprint) \<le> fp_width (fp_screenOf sampleFingerprint) \<and>
   fp_plugins sampleFingerprint = []"
  using fingerprint_internally_consistent [OF sample_fingerprint] sample_fingerprint
  by simp


section \<open>Properties of the session service\<close>

subsection \<open>retrieveSession, case by case\<close>

lemma retrieve_no_backRef:
  assumes "leadId \<notin> rejectedIds w" "backRef w leadId = None"
  shows "retrieveSession w leadId now = (Inl (retrieveFailed noSessionData), w)"
  using assms
  by (auto simp: retrieveSession_def findById_def backRef_def split: option.splits if_splits)

lemma retrieve_backRef:
  assumes "leadId \<notin> rejectedIds w" "backRef w leadId = Some sd"
  shows "retrieveSession w leadId now =
     (case backingFile w sd of
        None \<Rightarrow> (Inl (retrieveFailed fileInaccessible), w)
      | Some Unreadable \<Rightarrow> (Inl (retrieveFailed FsError), w)
      | Some Unparseable \<Rightarrow> (Inl (retrieveFailed JsonSyntaxError), w)
      | Some (Json r) \<Rightarrow>
          (Inr \<lparr>got_sessionData = rec_sessionData r, got_sessionId = rec_sessionId r,
                got_createdAt = rec_createdAt r, got_lastUsed = now\<rparr>,
           w\<lparr>files := AList.update (the (ref_sessionPath sd)) (Json (r\<lparr>rec_lastUsed := now\<rparr>))
                        (files w)\<rparr>))"
  using assms
  by (auto simp: retrieveSession_def findById_def backRef_def backingFile_def Let_def
      split: option.splits if_splits file_content.splits)

lemma retrieve_Inr:
  assumes "retrieveSession w leadId now = (Inr r, w1)"
  obtains sd p sr where "leadId \<notin> rejectedIds w" "backRef w leadId = Some sd"
    "ref_sessionPath sd = Some p" "map_of (files w) p = Some (Json sr)"
    "r = \<lparr>got_sessionData = rec_sessionData sr, got_sessionId = rec_sessionId sr,
          got_createdAt = rec_createdAt sr, got_lastUsed = now\<rparr>"
    "w1 = w\<lparr>files := AList.update p (Json (sr\<lparr>rec_lastUsed := now\<rparr>)) (files w)\<rparr>"
  using assms
  by (auto simp: retrieveSession_def findById_def backRef_def Let_def
      split: option.splits if_splits file_content.splits sum.splits)

lemma not_isl_Inr: "\<not> isl x \<Longrightarrow> x = Inr (projr x)"
  by (cases x) simp_all

subsection \<open>The sample worlds\<close>

lemma world0_accepts: "''L1'' \<notin> rejectedIds world0"
  by (simp add: world0_def)

lemma world1_eq:
  "world1 =
     world0\<lparr>files :=
              [(''session_L1_O1_1700000000000_00000000000000aa.json'',
                Json (newRecord ''session_L1_O1_1700000000000_00000000000000aa'' ''L1'' ''O1'' sampleInput 1700000000000))],
            leads :=
              [''L1'' \<mapsto> setSessionRef ''session_L1_O1_1700000000000_00000000000000aa''
                             ''session_L1_O1_1700000000000_00000000000000aa.json'' 1700000000000 sampleLead]\<rparr>"
  by (simp add: world1_def world0_def storeSession_def findByIdAndUpdate_def Let_def
      generateSessionId_def showTime_def decimal.simps digit_def)

lemma world1_accepts: "''L1'' \<notin> rejectedIds world1"
  by (simp add: world1_eq world0_def)

lemma world1_backRef:
  "backRef world1 ''L1'' =
     Some (emptyRef\<lparr>ref_sessionId := Some ''session_L1_O1_1700000000000_00000000000000aa'',
                    ref_sessionPath := Some ''session_L1_O1_1700000000000_00000000000000aa.json'',
                    ref_createdAt := Some 1700000000000, ref_status := Some ''active''\<rparr>)"
  by (simp add: world1_eq backRef_def setSessionRef_def refOf_def sampleLead_def falsy_def)

subsection \<open>C2: a second capture for the same lead\<close>

lemma storeSession_ok:
  assumes "leadId \<notin> rejectedIds w"
  shows "storeSession w leadId orderId (Some sd) now rb =
     (let sid = generateSessionId leadId orderId now rb; path = sid @ ''.json'';
          fs = AList.update path (Json (newRecord sid leadId orderId sd now)) (files w)
      in (Inr \<lparr>stored_sessionId = sid, stored_sessionPath = path\<rparr>,
          w\<lparr>files := fs,
            leads := (case leads w leadId of
                        None \<Rightarrow> leads w
                      | Some l \<Rightarrow> (leads w)(leadId \<mapsto> setSessionRef sid path now l))\<rparr>))"
  using assms
  by (simp add: storeSession_def findByIdAndUpdate_def Let_def split: option.splits)

text \<open>
  C2 claims that \<open>storeSession\<close> for a lead that already has an active SessionRecord
  fails with DuplicateCapture and leaves record and back-reference as they are. The
  source has no such check. In \<open>world1\<close> the lead \<open>L1\<close> has an active session; the
  second capture succeeds, the back-reference of \<open>L1\<close> now names the new session, and
  the directory holds two records of \<open>L1\<close> with status \<open>active\<close>.
\<close>

theorem duplicate_capture_counterexample:
  "hasActiveSession world1 ''L1'' = Inr True \<and>
   Option.bind (backRef world1 ''L1'') ref_sessionId = Some ''session_L1_O1_1700000000000_00000000000000aa'' \<and>
   \<not> isl (fst (storeSession world1 ''L1'' ''O1'' (Some sampleInput) 1700000050000 ''00000000000000bb'')) \<and>
   Option.bind (backRef world2 ''L1'') ref_sessionId = Some ''session_L1_O1_1700000050000_00000000000000bb'' \<and>
   activeRecordsOf world2 ''L1'' = [''session_L1_O1_1700000000000_00000000000000aa'', ''session_L1_O1_1700000050000_00000000000000bb'']"
  by code_simp

text \<open>
  C2, amended: \<open>storeSession\<close> checks nothing about an earlier session. For a lead id
  the Lead collection accepts and a payload object, it succeeds whether or not the lead
  has an active SessionRecord: it writes the new record under the new session id,
  leaves every other file of the directory as it is (the earlier record stays, with its
  status), and overwrites the back-reference of the lead, which then names the new
  session with status \<open>active\<close>. No invalidation is needed before a new capture, and
  several active records of one lead can exist.
\<close>

theorem storeSession_overwrites_reference:
  assumes "leadId \<notin> rejectedIds w"
    and "sid = generateSessionId leadId orderId now rb"
    and "path = sid @ ''.json''"
    and "w' = snd (storeSession w leadId orderId (Some sd) now rb)"
  shows "fst (storeSession w leadId orderId (Some sd) now rb) =
           Inr \<lparr>stored_sessionId = sid, stored_sessionPath = path\<rparr> \<and>
         map_of (files w') path = Some (Json (newRecord sid leadId orderId sd now)) \<and>
         (\<forall>p. p \<noteq> path \<longrightarrow> map_of (files w') p = map_of (files w) p) \<and>
         (\<forall>l. leads w leadId = Some l \<longrightarrow>
              leads w' leadId = Some (setSessionRef sid path now l) \<and>
              Option.bind (backRef w' leadId) ref_sessionId = Some sid \<and>
              Option.bind (backRef w' leadId) ref_sessionPath = Some path \<and>
              Option.bind (backRef w' leadId) ref_status = Some ''active'')"
proof -
  have sid_ne: "sid \<noteq> []" by (simp add: assms(2) generateSessionId_def)
  show ?thesis
    using sid_ne
    by (auto simp: assms(2-4) storeSession_ok [OF assms(1)] Let_def update_conv
        backRef_def setSessionRef_def falsy_def split: option.splits)
qed

theorem storeSession_overwrites_reference_witness:
  "''L1'' \<notin> rejectedIds world1 \<and>
   generateSessionId ''L1'' ''O1'' 1700000050000 ''00000000000000bb'' = ''session_L1_O1_1700000050000_00000000000000bb'' \<and>
   Option.bind (backRef world1 ''L1'') ref_sessionId = Some ''session_L1_O1_1700000000000_00000000000000aa'' \<and>
   fst (storeSession world1 ''L1'' ''O1'' (Some sampleInput) 1700000050000 ''00000000000000bb'') =
     Inr \<lparr>stored_sessionId = ''session_L1_O1_1700000050000_00000000000000bb'',
          stored_sessionPath = ''session_L1_O1_1700000050000_00000000000000bb.json''\<rparr> \<and>
   Option.bind (backRef world2 ''L1'') ref_sessionId = Some ''session_L1_O1_1700000050000_00000000000000bb'' \<and>
   map_of (files world2) ''session_L1_O1_1700000000000_00000000000000aa.json'' =
     map_of (files world1) ''session_L1_O1_1700000000000_00000000000000aa.json''"
proof -
  have sid: "''session_L1_O1_1700000050000_00000000000000bb'' = generateSessionId ''L1'' ''O1'' 1700000050000 ''00000000000000bb''"
    by (simp add: generateSessionId_def showTime_def decimal.simps digit_def)
  have path: "''session_L1_O1_1700000050000_00000000000000bb.json'' = ''session_L1_O1_1700000050000_00000000000000bb'' @ ''.json''"
    by simp
  have w2: "world2 = snd (storeSession world1 ''L1'' ''O1'' (Some sampleInput) 1700000050000 ''00000000000000bb'')"
    by (rule world2_def)
  have l: "leads world1 ''L1'' = Some (setSessionRef ''session_L1_O1_1700000000000_00000000000000aa''
             ''session_L1_O1_1700000000000_00000000000000aa.json'' 1700000000000 sampleLead)"
    by (simp add: world1_eq)
  have ne: "''session_L1_O1_1700000000000_00000000000000aa.json'' \<noteq> ''session_L1_O1_1700000050000_00000000000000bb.json''"
    by simp
  from storeSession_overwrites_reference [OF world1_accepts sid path w2] l ne
  show ?thesis
    using world1_accepts sid by (simp add: world1_backRef)
qed

subsection \<open>C6: a replay needs the current assignment\<close>

lemma assign_Inr:
  assumes "assignSessionToAgent w leadId a1 t1 = (Inr res, w1)"
  obtains l where "leadId \<notin> rejectedIds w" "leads w leadId = Some l"
    "w1 = noteAssignment a1 t1 (setAssignment a1 t1 l)
            (w\<lparr>leads := (leads w)(leadId \<mapsto> setAssignment a1 t1 l)\<rparr>)"
  using assms
  by (auto simp: assignSessionToAgent_def findByIdAndUpdate_def
      split: option.splits if_splits sum.splits prod.splits)

lemma noteAssignment_frame:
  "leads (noteAssignment a t l w) = leads w"
  "rejectedIds (noteAssignment a t l w) = rejectedIds w"
  "launched (noteAssignment a t l w) = launched w"
  by (simp_all add: noteAssignment_def split: option.splits file_content.splits)

lemma assigned_lead:
  assumes "assignSessionToAgent w leadId a1 t1 = (Inr res, w1)"
  shows "leadId \<notin> rejectedIds w1 \<and>
         (\<exists>l. leads w1 leadId = Some l \<and> assignedTo l = Some a1)"
proof -
  from assms obtain l where "leadId \<notin> rejectedIds w" "leads w leadId = Some l"
    and w1: "w1 = noteAssignment a1 t1 (setAssignment a1 t1 l)
            (w\<lparr>leads := (leads w)(leadId \<mapsto> setAssignment a1 t1 l)\<rparr>)"
    by (rule assign_Inr)
  then show ?thesis
    by (simp add: noteAssignment_frame setAssignment_def)
qed

text \<open>
  C6: let the session of a lead be assigned to agent \<open>a1\<close> (the assignment returned).
  A launch for any other agent \<open>a2\<close> fails with \<open>Lead is not assigned to this agent\<close>
  and leaves the world as it is, so that no launch request reaches \<open>spawn\<close>. A launch
  for \<open>a1\<close> itself, when the session of the lead can be retrieved, returns the launch
  data and hands exactly this request to \<open>spawn\<close>.
\<close>

theorem replay_requires_current_assignment:
  assumes "assignSessionToAgent w leadId a1 t1 = (Inr res, w1)"
  shows "(a2 \<noteq> a1 \<longrightarrow>
            launchAgentBrowser w1 leadId a2 t2 = (Inl (launchFailed notAssigned), w1)) \<and>
         (a1 \<noteq> [] \<and> \<not> isl (fst (retrieveSession w1 leadId t2)) \<longrightarrow>
            (\<exists>dat w2. launchAgentBrowser w1 leadId a1 t2 = (Inr dat, w2) \<and>
                      launch_leadId dat = leadId \<and> launch_agentId dat = a1 \<and>
                      launched w2 = launched w1 @ [dat]))"
proof -
  from assigned_lead [OF assms] obtain l where ok: "leadId \<notin> rejectedIds w1"
    "leads w1 leadId = Some l" "assignedTo l = Some a1"
    by blast
  have denied: "launchAgentBrowser w1 leadId a2 t2 = (Inl (launchFailed notAssigned), w1)"
    if "a2 \<noteq> a1"
    using ok that by (simp add: launchAgentBrowser_def findById_def)
  have accepted: "\<exists>dat w2. launchAgentBrowser w1 leadId a1 t2 = (Inr dat, w2) \<and>
                      launch_leadId dat = leadId \<and> launch_agentId dat = a1 \<and>
                      launched w2 = launched w1 @ [dat]"
    if "a1 \<noteq> []" "\<not> isl (fst (retrieveSession w1 leadId t2))"
  proof -
    from that(2) obtain r w' where r: "retrieveSession w1 leadId t2 = (Inr r, w')"
      by (cases "retrieveSession w1 leadId t2"; cases "fst (retrieveSession w1 leadId t2)") auto
    then obtain sd p sr where
      "w' = w1\<lparr>files := AList.update p (Json (sr\<lparr>rec_lastUsed := t2\<rparr>)) (files w1)\<rparr>"
      by (rule retrieve_Inr)
    then have "launched w' = launched w1" by simp
    then show ?thesis
      using ok that(1) r by (simp add: launchAgentBrowser_def findById_def falsy_def Let_def)
  qed
  show ?thesis using denied accepted by blast
qed

theorem replay_requires_current_assignment_witness:
  "\<not> isl (fst (assignSessionToAgent world1 ''L1'' ''A1'' 1700000020000)) \<and>
   ''A2'' \<noteq> ''A1'' \<and> ''A1'' \<noteq> [] \<and>
   \<not> isl (fst (retrieveSession world3 ''L1'' 1700000030000)) \<and>
   launchAgentBrowser world3 ''L1'' ''A2'' 1700000030000 = (Inl (launchFailed notAssigned), world3) \<and>
   \<not> isl (fst (launchAgentBrowser world3 ''L1'' ''A1'' 1700000030000))"
proof -
  have ok: "\<not> isl (fst (assignSessionToAgent world1 ''L1'' ''A1'' 1700000020000))" by code_simp
  then have "fst (assignSessionToAgent world1 ''L1'' ''A1'' 1700000020000) =
               Inr (projr (fst (assignSessionToAgent world1 ''L1'' ''A1'' 1700000020000)))"
    by (rule not_isl_Inr)
  then have a: "assignSessionToAgent world1 ''L1'' ''A1'' 1700000020000 =
                  (Inr (projr (fst (assignSessionToAgent world1 ''L1'' ''A1'' 1700000020000))), world3)"
    by (simp add: world3_def prod_eq_iff)
  have r: "\<not> isl (fst (retrieveSession world3 ''L1'' 1700000030000))" by code_simp
  have n: "''A2'' \<noteq> ''A1''" "''A1'' \<noteq> []" by simp_all
  from replay_requires_current_assignment [OF a, of "''A2''" 1700000030000] n r
  show ?thesis using ok by auto
qed

subsection \<open>C7: the expiry sweep\<close>

lemma map_of_entry:
  assumes "distinct (map fst fs)" "entry \<in> set fs"
  shows "map_of fs (fst entry) = Some (snd entry)"
  using assms by (cases entry) simp

lemma sweep_step:
  assumes "distinct (map fst (files w))" "entry \<in> set (files w)"
  shows "sweep cutoff (fst entry # rest) (w, d, e) =
           sweep cutoff rest
             (stepWorld cutoff entry w,
              d + (if expired cutoff entry then 1 else 0),
              e + (if damaged entry \<or> updateRejected w cutoff entry then 1 else 0))"
proof -
  obtain name c where entry: "entry = (name, c)" by (cases entry)
  have look: "map_of (files w) name = Some c"
    using map_of_entry [OF assms] by (simp add: entry)
  have upd: "w\<lparr>files := AList.delete name (files w),
              leads := (leads w)(lid \<mapsto> unsetSessionData l)\<rparr> =
             w\<lparr>files := AList.delete name (files w), leads := clearedLeads w [lid]\<rparr>"
    if "leads w lid = Some l" "lid \<notin> rejectedIds w" for lid l
    using that by (auto simp: clearedLeads_def fun_eq_iff)
  have same: "w\<lparr>files := AList.delete name (files w)\<rparr> =
             w\<lparr>files := AList.delete name (files w), leads := clearedLeads w ids\<rparr>"
    if "\<forall>lid \<in> set ids. leads w lid = None \<or> lid \<in> rejectedIds w" for ids
  proof -
    have "clearedLeads w ids = leads w"
      using that by (auto simp: clearedLeads_def fun_eq_iff)
    then show ?thesis by simp
  qed
  show ?thesis
  proof (cases c)
    case Unreadable
    then show ?thesis
      using look by (simp add: entry stepWorld_def expired_def damaged_def updateRejected_def)
  next
    case Unparseable
    then show ?thesis
      using look by (simp add: entry stepWorld_def expired_def damaged_def updateRejected_def)
  next
    case (Json r)
    show ?thesis
    proof (cases "expired cutoff entry")
      case False
      then show ?thesis
        using look Json
        by (auto simp: entry stepWorld_def expired_def damaged_def updateRejected_def)
    next
      case True
      then have j: "endsWith name ''.json''" "rec_createdAt r < cutoff"
        by (simp_all add: entry Json expired_def)
      show ?thesis
      proof (cases "rec_leadId r \<in> rejectedIds w")
        case rej: True
        then show ?thesis
          using look Json j True same [of "[rec_leadId r]"]
          by (simp add: entry stepWorld_def damaged_def updateRejected_def
              findByIdAndUpdate_def Let_def)
      next
        case acc: False
        show ?thesis
        proof (cases "leads w (rec_leadId r)")
          case None
          then show ?thesis
            using look Json j True acc same [of "[rec_leadId r]"]
            by (simp add: entry stepWorld_def damaged_def updateRejected_def
                findByIdAndUpdate_def Let_def)
        next
          case (Some l)
          then show ?thesis
            using look Json j True acc upd [of "rec_leadId r" l]
            by (simp add: entry stepWorld_def damaged_def updateRejected_def
                findByIdAndUpdate_def Let_def)
        qed
      qed
    qed
  qed
qed

lemma stepWorld_frame:
  "rejectedIds (stepWorld cutoff entry w) = rejectedIds w"
  "launched (stepWorld cutoff entry w) = launched w"
  by (simp_all add: stepWorld_def)

lemma stepWorld_files:
  "files (stepWorld cutoff entry w) =
     (if expired cutoff entry then filter (\<lambda>x. fst x \<noteq> fst entry) (files w) else files w)"
proof -
  have "AList.delete k fs = filter (\<lambda>x. fst x \<noteq> k) fs"
    for k :: string and fs :: "(string \<times> file_content) list"
    by (induction fs) auto
  then show ?thesis
    by (simp add: stepWorld_def)
qed

lemma stepWorld_leads:
  "leads (stepWorld cutoff entry w) = clearedLeads w (expiredLead cutoff entry)"
proof (cases "expired cutoff entry")
  case True
  then show ?thesis by (simp add: stepWorld_def)
next
  case False
  then have "expiredLead cutoff entry = []"
    by (cases entry; cases "snd entry") auto
  then show ?thesis
    using False by (simp add: stepWorld_def clearedLeads_def fun_eq_iff)
qed

lemma updateRejected_stepWorld:
  "updateRejected (stepWorld cutoff entry w) c x = updateRejected w c x"
  by (simp add: updateRejected_def stepWorld_frame split: file_content.splits)

lemma unsetSessionData_idem: "unsetSessionData (unsetSessionData l) = unsetSessionData l"
  by (simp add: unsetSessionData_def)

lemma clearedLeads_twice:
  "clearedLeads (w\<lparr>leads := clearedLeads w xs\<rparr>) ys = clearedLeads w (xs @ ys)"
  by (auto simp: clearedLeads_def fun_eq_iff unsetSessionData_idem option.map_comp comp_def)

lemma clearedLeads_stepWorld:
  "clearedLeads (stepWorld cutoff entry w) ys = clearedLeads w (expiredLead cutoff entry @ ys)"
proof -
  have "clearedLeads (stepWorld cutoff entry w) ys =
        clearedLeads (w\<lparr>leads := leads (stepWorld cutoff entry w)\<rparr>) ys"
    by (simp add: clearedLeads_def fun_eq_iff stepWorld_frame)
  then show ?thesis
    by (simp add: stepWorld_leads clearedLeads_twice)
qed

text \<open>
  The loop over the names of a part \<open>es\<close> of the directory: the entries of \<open>es\<close> that are
  expired go, and the counters grow by the number of expired and of failing entries.
\<close>

lemma sweep_entries:
  assumes "distinct (map fst (files w))" "set es \<subseteq> set (files w)" "distinct (map fst es)"
  shows "\<exists>w'. sweep cutoff (map fst es) (w, d, e) =
           (w', d + length (filter (expired cutoff) es),
                e + length (filter (\<lambda>x. damaged x \<or> updateRejected w cutoff x) es)) \<and>
         files w' = filter (\<lambda>x. x \<notin> set es \<or> \<not> expired cutoff x) (files w) \<and>
         leads w' = clearedLeads w (expiredLeadIds cutoff es) \<and>
         rejectedIds w' = rejectedIds w \<and> launched w' = launched w"
  using assms
proof (induction es arbitrary: w d e)
  case Nil
  then show ?case
    by (simp add: expiredLeadIds_def clearedLeads_def fun_eq_iff)
next
  case (Cons entry es)
  let ?w1 = "stepWorld cutoff entry w"
  have inw: "entry \<in> set (files w)" using Cons.prems by simp
  have d1: "distinct (map fst (files ?w1))"
    using Cons.prems(1) by (simp add: stepWorld_files distinct_map_filter)
  have notin: "fst entry \<notin> fst ` set es" using Cons.prems(3) by simp
  have sub: "set es \<subseteq> set (files ?w1)"
  proof
    fix x assume x: "x \<in> set es"
    then have "fst x \<noteq> fst entry" using notin by (metis imageI)
    moreover have "x \<in> set (files w)" using x Cons.prems(2) by auto
    ultimately show "x \<in> set (files ?w1)" by (simp add: stepWorld_files)
  qed
  have d2: "distinct (map fst es)" using Cons.prems(3) by simp
  from Cons.IH [OF d1 sub d2,
      of "d + (if expired cutoff entry then 1 else 0)"
         "e + (if damaged entry \<or> updateRejected w cutoff entry then 1 else 0)"]
  obtain w' where
    run: "sweep cutoff (map fst es)
            (?w1, d + (if expired cutoff entry then 1 else 0),
             e + (if damaged entry \<or> updateRejected w cutoff entry then 1 else 0)) =
          (w', d + (if expired cutoff entry then 1 else 0) + length (filter (expired cutoff) es),
           e + (if damaged entry \<or> updateRejected w cutoff entry then 1 else 0) +
             length (filter (\<lambda>x. damaged x \<or> updateRejected ?w1 cutoff x) es))"
    and fl: "files w' = filter (\<lambda>x. x \<notin> set es \<or> \<not> expired cutoff x) (files ?w1)"
    and ld: "leads w' = clearedLeads ?w1 (expiredLeadIds cutoff es)"
    and fr: "rejectedIds w' = rejectedIds ?w1" "launched w' = launched ?w1"
    by blast
  have only: "x = entry" if "x \<in> set (files w)" "fst x = fst entry" for x
    using that inw Cons.prems(1) by (metis eq_key_imp_eq_value prod.collapse)
  have files: "files w' = filter (\<lambda>x. x \<notin> set (entry # es) \<or> \<not> expired cutoff x) (files w)"
  proof (cases "expired cutoff entry")
    case True
    have "filter (\<lambda>x. x \<notin> set es \<or> \<not> expired cutoff x)
            (filter (\<lambda>x. fst x \<noteq> fst entry) (files w))
          = filter (\<lambda>x. x \<notin> set (entry # es) \<or> \<not> expired cutoff x) (files w)"
      unfolding filter_filter using True only by (intro filter_cong) auto
    then show ?thesis using True by (simp add: fl stepWorld_files)
  next
    case False
    have "filter (\<lambda>x. x \<notin> set es \<or> \<not> expired cutoff x) (files w)
          = filter (\<lambda>x. x \<notin> set (entry # es) \<or> \<not> expired cutoff x) (files w)"
      using False by (intro filter_cong) auto
    then show ?thesis using False by (simp add: fl stepWorld_files)
  qed
  have leads: "leads w' = clearedLeads w (expiredLeadIds cutoff (entry # es))"
    by (simp add: ld clearedLeads_stepWorld expiredLeadIds_def)
  have "sweep cutoff (map fst (entry # es)) (w, d, e) =
          (w', d + length (filter (expired cutoff) (entry # es)),
               e + length (filter (\<lambda>x. damaged x \<or> updateRejected w cutoff x) (entry # es)))"
    using sweep_step [OF Cons.prems(1) inw, of cutoff "map fst es" d e] run
    by (simp add: updateRejected_stepWorld)
  then show ?case
    using files leads fr by (simp add: stepWorld_frame)
qed

text \<open>
  C7 claims that the sweep deletes exactly the records created strictly before \<open>now\<close>
  minus \<open>maxAgeDays\<close> days. The cutoff of the source is a calendar date of the local
  time zone, and where the offset of the zone changes between the cutoff and \<open>now\<close>
  it is not \<open>maxAgeDays\<close> days of 24 hours before \<open>now\<close>. In \<open>springZone\<close>, at
  1710950400000 with \<open>maxAgeDays = 30\<close>, the cutoff is 1708362000000, an hour after
  \<open>now\<close> minus thirty days of 24 hours (1708358400000); the record of \<open>marchWorld\<close>,
  created at 1708360200000, is not older than thirty days and is deleted.
\<close>

theorem calendar_cutoff_counterexample:
  "\<not> (1708360200000 < 1710950400000 - 30 * dayMs) \<and>
   cutoffDate springZone 1710950400000 30 = 1708362000000 \<and>
   map fst (files marchWorld) = [''feb.json''] \<and>
   map fst (files (snd (cleanupOldSessions marchWorld springZone 30 1710950400000))) = [] \<and>
   fst (cleanupOldSessions marchWorld springZone 30 1710950400000) =
     Inr \<lparr>deletedCount = 1, errorCount = 0\<rparr>"
  by code_simp

text \<open>
  C7, amended: for a directory (with distinct file names), any time zone and any
  \<open>maxAgeDays\<close>, the sweep returns; the directory afterwards holds, in their order and
  with their content, exactly the entries that are not \<open>.json\<close> records created
  strictly before the cutoff. The cutoff is the instant at which the local calendar
  shows the date of \<open>now\<close> moved back by \<open>maxAgeDays\<close> days, at the local time of day of
  \<open>now\<close>; it is \<open>now\<close> minus \<open>maxAgeDays\<close> days of 24 hours when the offset of the zone
  at the cutoff is its offset at \<open>now\<close>. \<open>deletedCount\<close> is the number of entries
  removed, and \<open>errorCount\<close> the number of \<open>.json\<close> files that could not be read or
  parsed (plus the removed records whose lead update the collection rejected): a
  damaged file is counted and the loop goes on to the remaining entries. The lead of
  each removed record, when the collection accepts the update, loses its
  \<open>sessionData\<close>; every other lead is as before.
\<close>

theorem cleanup_deletes_exactly_the_expired:
  assumes "distinct (map fst (files w))"
    and "cutoff = cutoffDate z now maxAgeDays"
    and "cleanupOldSessions w z maxAgeDays now = (res, w')"
  shows "files w' = filter (\<lambda>x. \<not> expired cutoff x) (files w) \<and>
         res = Inr \<lparr>deletedCount = length (filter (expired cutoff) (files w)),
                    errorCount =
                      length (filter (\<lambda>x. damaged x \<or> updateRejected w cutoff x) (files w))\<rparr> \<and>
         leads w' = clearedLeads w (expiredLeadIds cutoff (files w)) \<and>
         rejectedIds w' = rejectedIds w \<and> launched w' = launched w \<and>
         cutoff = localTime z now - maxAgeDays * dayMs
                    - offsetAtLocal z (localTime z now - maxAgeDays * dayMs) \<and>
         (offsetAtLocal z (localTime z now - maxAgeDays * dayMs) = offsetAtInstant z now \<longrightarrow>
            cutoff = now - maxAgeDays * dayMs)"
proof -
  from sweep_entries [OF assms(1) subset_refl assms(1), of cutoff 0 0]
  obtain w1 where
    run: "sweep cutoff (map fst (files w)) (w, 0, 0) =
            (w1, length (filter (expired cutoff) (files w)),
             length (filter (\<lambda>x. damaged x \<or> updateRejected w cutoff x) (files w)))"
    and fl: "files w1 = filter (\<lambda>x. x \<notin> set (files w) \<or> \<not> expired cutoff x) (files w)"
    and rest: "leads w1 = clearedLeads w (expiredLeadIds cutoff (files w))"
      "rejectedIds w1 = rejectedIds w" "launched w1 = launched w"
    by auto
  have "filter (\<lambda>x. x \<notin> set (files w) \<or> \<not> expired cutoff x) (files w) =
        filter (\<lambda>x. \<not> expired cutoff x) (files w)"
    by (intro filter_cong) auto
  with fl have fl': "files w1 = filter (\<lambda>x. \<not> expired cutoff x) (files w)" by simp
  from assms(3) run have "w' = w1"
    and "res = Inr \<lparr>deletedCount = length (filter (expired cutoff) (files w)),
                    errorCount =
                      length (filter (\<lambda>x. damaged x \<or> updateRejected w cutoff x) (files w))\<rparr>"
    by (auto simp: cleanupOldSessions_def assms(2))
  moreover have "cutoff = localTime z now - maxAgeDays * dayMs
                    - offsetAtLocal z (localTime z now - maxAgeDays * dayMs)"
    by (simp add: assms(2) cutoffDate_def utcOfLocal_def)
  moreover have "cutoff = now - maxAgeDays * dayMs"
    if "offsetAtLocal z (localTime z now - maxAgeDays * dayMs) = offsetAtInstant z now"
    using that by (simp add: assms(2) cutoffDate_def utcOfLocal_def localTime_def)
  ultimately show ?thesis using fl' rest by simp
qed

theorem cleanup_deletes_exactly_the_expired_witness:
  "distinct (map fst (files sweepWorld)) \<and>
   offsetAtLocal springZone (localTime springZone (40 * dayMs) - 30 * dayMs)
     = offsetAtInstant springZone (40 * dayMs) \<and>
   cutoffDate springZone (40 * dayMs) 30 = 40 * dayMs - 30 * dayMs \<and>
   map fst (files (snd (cleanupOldSessions sweepWorld springZone 30 (40 * dayMs)))) =
     [''new.json'', ''bad.json'', ''notes.txt''] \<and>
   fst (cleanupOldSessions sweepWorld springZone 30 (40 * dayMs)) =
     Inr \<lparr>deletedCount = 1, errorCount = 1\<rparr> \<and>
   Option.bind (leads (snd (cleanupOldSessions sweepWorld springZone 30 (40 * dayMs))) ''L1'')
     sessionData = None \<and>
   Option.bind (leads (snd (cleanupOldSessions sweepWorld springZone 30 (40 * dayMs))) ''L2'')
     sessionData = Option.bind (leads sweepWorld ''L2'') sessionData"
proof -
  let ?c = "cutoffDate springZone (40 * dayMs) 30"
  let ?run = "cleanupOldSessions sweepWorld springZone 30 (40 * dayMs)"
  have h1: "distinct (map fst (files sweepWorld))"
    by (simp add: sweepWorld_def)
  have h2: "offsetAtLocal springZone (localTime springZone (40 * dayMs) - 30 * dayMs)
              = offsetAtInstant springZone (40 * dayMs)"
    by (simp add: springZone_def localTime_def dayMs_def)
  have h3: "?run = (fst ?run, snd ?run)"
    by simp
  have e: "map fst (filter (\<lambda>x. \<not> expired ?c x) (files sweepWorld)) =
             [''new.json'', ''bad.json'', ''notes.txt'']"
    "length (filter (expired ?c) (files sweepWorld)) = 1"
    "length (filter (\<lambda>x. damaged x \<or> updateRejected sweepWorld ?c x) (files sweepWorld)) = 1"
    "Option.bind (clearedLeads sweepWorld (expiredLeadIds ?c (files sweepWorld)) ''L1'')
       sessionData = None"
    "Option.bind (clearedLeads sweepWorld (expiredLeadIds ?c (files sweepWorld)) ''L2'')
       sessionData = Option.bind (leads sweepWorld ''L2'') sessionData"
    by code_simp+
  from cleanup_deletes_exactly_the_expired [OF h1 refl h3]
  have "files (snd ?run) = filter (\<lambda>x. \<not> expired ?c x) (files sweepWorld)"
    and "fst ?run =
          Inr \<lparr>deletedCount = length (filter (expired ?c) (files sweepWorld)),
               errorCount =
                 length (filter (\<lambda>x. damaged x \<or> updateRejected sweepWorld ?c x)
                           (files sweepWorld))\<rparr>"
    and "leads (snd ?run) = clearedLeads sweepWorld (expiredLeadIds ?c (files sweepWorld))"
    and "offsetAtLocal springZone (localTime springZone (40 * dayMs) - 30 * dayMs)
           = offsetAtInstant springZone (40 * dayMs) \<longrightarrow>
         ?c = 40 * dayMs - 30 * dayMs"
    by blast+
  then show ?thesis
    using h1 h2 e by simp
qed

subsection \<open>C8: retrieving twice\<close>

text \<open>
  C8: when \<open>retrieveSession\<close> returns for a lead, a second call right after it returns
  as well, with the same payload (cookies, localStorage, sessionStorage, userAgent,
  viewport, deviceFingerprint, finalDomain), session id and creation time. Each call
  changes the world in one place only: in the record of the lead's file, \<open>lastUsed\<close>
  becomes the time of the call; the Lead collection and every other field of the
  record are as before.
\<close>

theorem retrieve_twice_same_payload:
  assumes "retrieveSession w leadId t1 = (Inr r1, w1)"
  shows "\<exists>r2 w2 p sr.
           retrieveSession w1 leadId t2 = (Inr r2, w2) \<and>
           got_sessionData r2 = got_sessionData r1 \<and>
           got_sessionId r2 = got_sessionId r1 \<and>
           got_createdAt r2 = got_createdAt r1 \<and>
           map_of (files w) p = Some (Json sr) \<and>
           w1 = w\<lparr>files := AList.update p (Json (sr\<lparr>rec_lastUsed := t1\<rparr>)) (files w)\<rparr> \<and>
           w2 = w\<lparr>files := AList.update p (Json (sr\<lparr>rec_lastUsed := t2\<rparr>)) (files w)\<rparr>"
proof -
  from assms obtain sd p sr where ok: "leadId \<notin> rejectedIds w" "backRef w leadId = Some sd"
    "ref_sessionPath sd = Some p" "map_of (files w) p = Some (Json sr)"
    and r1: "r1 = \<lparr>got_sessionData = rec_sessionData sr, got_sessionId = rec_sessionId sr,
          got_createdAt = rec_createdAt sr, got_lastUsed = t1\<rparr>"
    and w1: "w1 = w\<lparr>files := AList.update p (Json (sr\<lparr>rec_lastUsed := t1\<rparr>)) (files w)\<rparr>"
    by (rule retrieve_Inr)
  have b1: "backRef w1 leadId = Some sd" "leadId \<notin> rejectedIds w1"
    using ok by (simp_all add: w1 backRef_def)
  have f1: "backingFile w1 sd = Some (Json (sr\<lparr>rec_lastUsed := t1\<rparr>))"
    using ok by (simp add: w1 backingFile_def update_conv)
  have "retrieveSession w1 leadId t2 =
          (Inr \<lparr>got_sessionData = rec_sessionData sr, got_sessionId = rec_sessionId sr,
                got_createdAt = rec_createdAt sr, got_lastUsed = t2\<rparr>,
           w\<lparr>files := AList.update p (Json (sr\<lparr>rec_lastUsed := t2\<rparr>)) (files w)\<rparr>)"
    using retrieve_backRef [OF b1(2) b1(1), of t2] f1 ok(3)
    by (simp add: w1)
  then show ?thesis
    using ok(4) r1 w1 by auto
qed

theorem retrieve_twice_same_payload_witness:
  "\<not> isl (fst (retrieveSession world1 ''L1'' 1700000060000)) \<and>
   (\<exists>r2 w2. retrieveSession (snd (retrieveSession world1 ''L1'' 1700000060000)) ''L1'' 1700000070000 = (Inr r2, w2) \<and>
            got_sessionData r2 =
              got_sessionData (projr (fst (retrieveSession world1 ''L1'' 1700000060000))) \<and>
            cookies (got_sessionData r2) = [''sid=1''])"
proof -
  have ok: "\<not> isl (fst (retrieveSession world1 ''L1'' 1700000060000))" by code_simp
  then have "fst (retrieveSession world1 ''L1'' 1700000060000) =
               Inr (projr (fst (retrieveSession world1 ''L1'' 1700000060000)))"
    by (rule not_isl_Inr)
  then have a: "retrieveSession world1 ''L1'' 1700000060000 =
                  (Inr (projr (fst (retrieveSession world1 ''L1'' 1700000060000))),
                   snd (retrieveSession world1 ''L1'' 1700000060000))"
    by (simp add: prod_eq_iff)
  have c: "cookies (got_sessionData (projr (fst (retrieveSession world1 ''L1'' 1700000060000))))
             = [''sid=1'']"
    by code_simp
  from retrieve_twice_same_payload [OF a, of 1700000070000] c
  show ?thesis using ok by auto
qed

subsection \<open>C9: no session, or a session that cannot be read\<close>

text \<open>
  C9: for a lead id the Lead collection accepts, \<open>retrieveSession\<close> fails with
  \<open>No session data found for this lead\<close> when the lead has no back-reference (no lead,
  no \<open>sessionData\<close>, or no session id). When the back-reference is there and the file it
  names is missing, cannot be read or cannot be parsed, it fails with one of the errors
  of an unavailable session (\<open>Session file not found or inaccessible\<close>, the file
  system's error, the parser's error), each of them different from the error of the
  first case. The world is unchanged in both cases.
\<close>

theorem absence_distinct_from_corruption:
  assumes "leadId \<notin> rejectedIds w"
  shows "(backRef w leadId = None \<longrightarrow>
            retrieveSession w leadId now = (Inl (retrieveFailed noSessionData), w)) \<and>
         (\<forall>sd. backRef w leadId = Some sd \<and>
               (backingFile w sd = None \<or> backingFile w sd = Some Unreadable \<or>
                backingFile w sd = Some Unparseable) \<longrightarrow>
               (\<exists>e. retrieveSession w leadId now = (Inl e, w) \<and> sessionUnavailable e \<and>
                    e \<noteq> retrieveFailed noSessionData))"
proof -
  have ne: "e \<noteq> retrieveFailed noSessionData" if "sessionUnavailable e" for e
    using that
    by (auto simp: sessionUnavailable_def retrieveFailed_def noSessionData_def
        fileInaccessible_def)
  show ?thesis
  proof (intro conjI allI impI)
    assume "backRef w leadId = None"
    with assms show "retrieveSession w leadId now = (Inl (retrieveFailed noSessionData), w)"
      by (rule retrieve_no_backRef)
  next
    fix sd
    assume a: "backRef w leadId = Some sd \<and>
       (backingFile w sd = None \<or> backingFile w sd = Some Unreadable \<or>
        backingFile w sd = Some Unparseable)"
    then have "\<exists>e. retrieveSession w leadId now = (Inl e, w) \<and> sessionUnavailable e"
      using retrieve_backRef [OF assms, of sd now]
      by (auto simp: sessionUnavailable_def)
    then show "\<exists>e. retrieveSession w leadId now = (Inl e, w) \<and> sessionUnavailable e \<and>
                    e \<noteq> retrieveFailed noSessionData"
      using ne by blast
  qed
qed

theorem absence_distinct_from_corruption_witness:
  "''L1'' \<notin> rejectedIds world0 \<and> backRef world0 ''L1'' = None \<and>
   retrieveSession world0 ''L1'' 1700000060000 = (Inl (retrieveFailed noSessionData), world0) \<and>
   ''L1'' \<notin> rejectedIds lostWorld \<and>
   (\<exists>sd. backRef lostWorld ''L1'' = Some sd \<and> backingFile lostWorld sd = None) \<and>
   (\<exists>e. retrieveSession lostWorld ''L1'' 1700000060000 = (Inl e, lostWorld) \<and> sessionUnavailable e \<and>
        e \<noteq> retrieveFailed noSessionData)"
proof -
  have b0: "backRef world0 ''L1'' = None"
    by (simp add: backRef_def world0_def sampleLead_def)
  have a1: "''L1'' \<notin> rejectedIds lostWorld"
    by (simp add: lostWorld_def world1_accepts)
  have b1: "backRef lostWorld ''L1'' = backRef world1 ''L1''"
    by (simp add: lostWorld_def backRef_def)
  have f1: "backingFile lostWorld sd = None" for sd
    by (simp add: backingFile_def lostWorld_def split: Option.bind_split)
  from absence_distinct_from_corruption [OF world0_accepts, of 1700000060000]
       absence_distinct_from_corruption [OF a1, of 1700000060000]
  show ?thesis
    using world0_accepts a1 b0 b1 f1 by (simp add: world1_backRef)
qed

subsection \<open>C10: hasActiveSession\<close>

text \<open>
  C10: \<open>hasActiveSession\<close> returns a boolean for every world and lead id, and raises
  nothing. The boolean is true exactly when the lookup of the lead does not fail, the
  lead exists and has a back-reference with a session id, the file the back-reference
  names exists, and the status of the back-reference is \<open>active\<close>.
\<close>

theorem hasActiveSession_total:
  "hasActiveSession w leadId =
     Inr (leadId \<notin> rejectedIds w \<and>
          (\<exists>sd. backRef w leadId = Some sd \<and> backingFile w sd \<noteq> None \<and>
                ref_status sd = Some ''active''))"
  by (auto simp: hasActiveSession_def hasActiveSession_try_def findById_def backRef_def
      backingFile_def split: option.splits)

theorem hasActiveSession_total_witness:
  "hasActiveSession world1 ''L1'' = Inr True \<and> hasActiveSession world0 ''L1'' = Inr False \<and>
   hasActiveSession lostWorld ''L1'' = Inr False"
proof -
  have b0: "backRef world0 ''L1'' = None"
    by (simp add: backRef_def world0_def sampleLead_def)
  have b1: "backRef lostWorld ''L1'' = backRef world1 ''L1''"
    by (simp add: lostWorld_def backRef_def)
  have f: "backingFile world1 sd \<noteq> None"
    if "ref_sessionPath sd = Some ''session_L1_O1_1700000000000_00000000000000aa.json''" for sd
    using that by (simp add: backingFile_def world1_eq)
  have f1: "backingFile lostWorld sd = None" for sd
    by (simp add: backingFile_def lostWorld_def split: Option.bind_split)
  show ?thesis
    using b0 b1 f f1 world1_accepts
    by (simp add: hasActiveSession_total world1_backRef)
qed


end
